theory Spec2Isabelle
  imports Main
begin

section \<open>The tree walker of \<open>atopile/model2/datamodel1.py\<close>\<close>

text \<open>
  The class \<open>Dizzy\<close> is a visitor over the parse tree of one source file. The parse tree
  comes from a generated parser that is not part of the walker; every \<open>visitX\<close> method
  only asks its context for child contexts and for the text of a token. The embedding
  therefore takes the children and token texts as arguments, and each method becomes a
  function from the walker's state to either an error (the exception the method raises)
  or its result and the state it leaves behind.
\<close>

subsection \<open>Names and integer literals\<close>

text \<open>
  \<open>visitName\<close> returns an \<open>int\<close> or a \<open>str\<close>; both are used as dictionary keys and as
  path segments.
\<close>

datatype name = NInt int | NStr string

text \<open>
  Python's \<open>int(text)\<close> on a string, base ten: the whitespace around the number is
  skipped (tab, line feed, vertical tab, form feed, carriage return and space; the
  separators 28 to 31 are not skipped), one sign is allowed, and the digits may be
  grouped by single underscores. A text with more digits than the interpreter's limit
  (4300 unless it is reconfigured) is refused. A \<open>ValueError\<close> is the value \<open>None\<close>.
  Token texts are taken to be ASCII (a \<open>char\<close> is a byte), so the decimal digits of
  other scripts are not digits here.
\<close>

definition is_space :: "char \<Rightarrow> bool" where
  "is_space c = (let n = (of_char c :: nat) in (9 \<le> n \<and> n \<le> 13) \<or> n = 32)"

definition is_digit :: "char \<Rightarrow> bool" where
  "is_digit c = (let n = (of_char c :: nat) in 48 \<le> n \<and> n \<le> 57)"

definition digit_val :: "char \<Rightarrow> int" where
  "digit_val c = int (of_char c) - 48"

definition strip_space :: "string \<Rightarrow> string" where
  "strip_space s = rev (dropWhile is_space (rev (dropWhile is_space s)))"

fun parse_digits :: "int \<Rightarrow> string \<Rightarrow> int option" where
  "parse_digits acc [] = Some acc"
| "parse_digits acc [c] = (if is_digit c then Some (acc * 10 + digit_val c) else None)"
| "parse_digits acc (c # d # cs) =
     (if is_digit c then parse_digits (acc * 10 + digit_val c) (d # cs)
      else if c = CHR ''_'' \<and> is_digit d then parse_digits (acc * 10 + digit_val d) cs
      else None)"

definition parse_unsigned :: "string \<Rightarrow> int option" where
  "parse_unsigned s =
     (case s of
        [] \<Rightarrow> None
      | c # cs \<Rightarrow> if is_digit c then parse_digits (digit_val c) cs else None)"

definition max_str_digits :: nat where
  "max_str_digits = 4300"

definition py_int :: "string \<Rightarrow> int option" where
  "py_int text =
     (case strip_space text of
        [] \<Rightarrow> None
      | c # cs \<Rightarrow>
          (let body = (if c = CHR ''-'' \<or> c = CHR ''+'' then cs else c # cs) in
           if max_str_digits < length (filter is_digit body) then None
           else if c = CHR ''-'' then map_option uminus (parse_unsigned cs)
           else if c = CHR ''+'' then parse_unsigned cs
           else parse_unsigned (c # cs)))"

subsection \<open>Errors\<close>

text \<open>
  Every exception class the walker can raise is a constructor; the values a message
  interpolates are its arguments. \<open>NameNotFound\<close> is the failure of a scope lookup.
  \<open>PyTypeError\<close>, \<open>PyIndexError\<close> and \<open>PyUnboundLocalError\<close> are the interpreter's own
  exceptions, raised where the code unpacks or subscripts a value that does not
  support it, indexes an empty tuple, or reads a local that no branch has bound.
\<close>

datatype type_error =
    ExpectedInteger string
  | NotObjectOrClass name
  | CanOnlySubclassClasses
  | CanOnlySubclassAllowed
  | CannotConnect
  | UnknownError
  | CanOnlyInitialise name
  | CanOnlyRetypeObjects name
  | CanOnlyRetypeToClasses name
  | NotASubclass name name name

datatype compile_error =
    UnknownBlockType string
  | ExpectedNameOrAttr
  | ExpectedNameAfterFrom
  | PinsMustHaveName
  | SignalsMustHaveName
  | ExpectedFromFile
  | ExpectedNameToImport

datatype py_error = CannotUnpack | NotSubscriptable

datatype error =
    AtoTypeError type_error
  | AtoCompileError compile_error
  | AtoNameConflictError name
  | NotImplementedError
  | NameNotFound name
  | PyTypeError py_error
  | PyIndexError
  | PyUnboundLocalError

subsection \<open>\<open>visitTotally_an_integer\<close>, \<open>visitName\<close>, \<open>visitAttr\<close>\<close>

definition visitTotally_an_integer :: "string \<Rightarrow> error + int" where
  "visitTotally_an_integer text =
     (case py_int text of
        Some i \<Rightarrow> Inr i
      | None \<Rightarrow> Inl (AtoTypeError (ExpectedInteger text)))"

definition visitName :: "string \<Rightarrow> name" where
  "visitName text = (case py_int text of Some i \<Rightarrow> NInt i | None \<Rightarrow> NStr text)"

definition visitAttr :: "string list \<Rightarrow> name list" where
  "visitAttr names = map visitName names"

subsection \<open>The parse tree\<close>

text \<open>
  What the walker reads from each context: \<open>ctx.name()\<close> and \<open>ctx.attr()\<close> of a
  name-or-attribute node (the texts of the name tokens; at most one of the two is
  present), the alternative taken by a pin definition (\<open>ctx.totally_an_integer() or
  ctx.name()\<close>), by a connectable and by an assignable, and the children of each
  statement. A numeric pin reference is a name-or-attribute node, a dot and an integer
  token. \<open>float(text)\<close> of a \<open>NUMBER\<close> token is floating point and is not embedded: the
  token is given as the float it denotes, either one for which \<open>is_integer()\<close> holds,
  with its \<open>int\<close> value, or another one, named by its text.
\<close>

datatype name_or_attr = NoaName string | NoaAttr "string list" | NoaNeither

datatype pindef = PinInteger string | PinName string

datatype connectable =
    CName_or_attr name_or_attr
  | CNumerical_pin_ref name_or_attr string
  | CPindef pindef
  | CSignaldef string

datatype pyfloat = Integral int | NonIntegral string

datatype assignable =
    AName_or_attr name_or_attr
  | ANew name_or_attr
  | ANumber pyfloat
  | AString string
  | ABoolean string
  | ANothing

datatype from_clause = NoFrom | From "name_or_attr option"

datatype stmt =
    Blockdef string string from_clause "stmt list"
  | Pindef_stmt pindef
  | Signaldef_stmt string
  | Import_stmt string name_or_attr
  | Connect_stmt connectable connectable
  | With_stmt
  | Assign_stmt name_or_attr assignable
  | Retype_stmt name_or_attr name_or_attr

type_synonym file_input = "stmt list"

subsection \<open>The example data model of \<open>datamodel1\<close>\<close>

text \<open>
  The \<open>attrs\<close> classes \<open>Link\<close>, \<open>Replace\<close>, \<open>Import\<close> and \<open>Object\<close> declared at the top
  of the module, and its constants \<open>MODULE\<close> and \<open>COMPONENT\<close>. A \<open>Ref\<close> is a tuple of
  names. These are what \<open>visitFile_input\<close> and \<open>visitBlocktype\<close> return. A Python
  field name that ends in an underscore ends in a prime here.
  The module also builds example objects with the keywords \<open>class_\<close> and \<open>anon\<close>,
  which \<open>Object\<close> does not declare; these statements are outside the walker and are
  not embedded.
\<close>

type_synonym Ref = "name list"

datatype Link = Link (source: Ref) (target: Ref)

datatype Replace = Replace (original: Ref) (replacement: Ref)

datatype Import = Import (what: Ref) (from': string)

datatype Object =
  Object (supers: "Object list") (links: "Link list") (replace: "Replace list")
    (imports': "Import list") (locals': "(name \<times> Object) list")

definition MODULE :: Object where
  "MODULE = Object [] [] [] [] []"

definition COMPONENT :: Object where
  "COMPONENT = Object [MODULE] [] [] [] []"

subsection \<open>Classes, objects, attributes and scopes\<close>

text \<open>
  The modules \<open>atopile.model2.types\<close> and \<open>atopile.model2.scope2\<close> are used by the
  walker and are described by the specification only. A class is created once and never
  changed, so it is a value: an identity, a name and its superclass. An object is
  mutable (\<open>type_\<close> is assigned by a retype statement, \<open>start\<close> and \<open>end\<close> by a connect
  statement), so objects live in a store and a value refers to one by its address. An
  attribute pairs a type descriptor with a value; the descriptor is a class, the
  Python class \<open>types.Class\<close> itself, or the Python type of a literal.
\<close>

datatype prim = PInt | PFloat | PStr | PBool

datatype cls = Class (cid: nat) (cname: name) (csuper: "cls option")

datatype tdesc = TClass cls | TClassTag | TPrim prim

datatype val =
    VScope scope
  | VClass cls
  | VObject nat
  | VAttribute tdesc val
  | VInt int
  | VFloat string
  | VStr string
  | VBool bool
  | VNone
and scope = Scope (scope_root: val) (scope_parent: "scope option")

record obj =
  type' :: cls
  start :: "val option"
  end' :: "val option"

text \<open>
  The walker's state: the object store with its next free address, the members and the
  anonymous items of every entity a scope can be rooted at, the next class identity, and
  the walker's current scope \<open>self.scope\<close>.
\<close>

record state =
  objects :: "nat \<Rightarrow> obj"
  next_oid :: nat
  members :: "val \<Rightarrow> (name \<times> val) list"
  anon :: "val \<Rightarrow> val list"
  next_cid :: nat
  scope :: scope

text \<open>
  Modelled from the spec: the built-in classes of \<open>atopile.model2.types\<close>. Component's
  super chain includes Module; Pin and Signal are both Interface subtypes.
\<close>

definition types_MODULE :: cls where
  "types_MODULE = Class 0 (NStr ''Module'') None"

definition types_COMPONENT :: cls where
  "types_COMPONENT = Class 1 (NStr ''Component'') (Some types_MODULE)"

definition types_INTERFACE :: cls where
  "types_INTERFACE = Class 2 (NStr ''Interface'') None"

definition types_PIN :: cls where
  "types_PIN = Class 3 (NStr ''Pin'') (Some types_INTERFACE)"

definition types_SIGNAL :: cls where
  "types_SIGNAL = Class 4 (NStr ''Signal'') (Some types_INTERFACE)"

definition types_LINK :: cls where
  "types_LINK = Class 5 (NStr ''Link'') None"

text \<open>
  Modelled from the spec: \<open>is_subclass_of(candidate, ancestor)\<close> of
  \<open>atopile.model2.types\<close> is true if the ancestor appears in the candidate's super
  chain, and is reflexive.
\<close>

fun super_chain :: "cls \<Rightarrow> cls list" where
  "super_chain (Class i n None) = [Class i n None]"
| "super_chain (Class i n (Some p)) = Class i n (Some p) # super_chain p"

definition is_subclass_of :: "cls \<Rightarrow> cls \<Rightarrow> bool" where
  "is_subclass_of candidate ancestor = (ancestor \<in> set (super_chain candidate))"

text \<open>
  Modelled from the spec: \<open>make_subclass(name, parent)\<close> of \<open>atopile.model2.types\<close>
  allocates a new Class whose chain includes the parent and fails if the parent is not a
  Class (as a type mismatch).
\<close>

definition make_subclass :: "state \<Rightarrow> name \<Rightarrow> val \<Rightarrow> error + (cls \<times> state)" where
  "make_subclass st n par =
     (case par of
        VClass p \<Rightarrow> Inr (Class (next_cid st) n (Some p), st\<lparr>next_cid := Suc (next_cid st)\<rparr>)
      | _ \<Rightarrow> Inl (AtoTypeError CanOnlySubclassClasses))"

text \<open>
  Modelled from the spec: \<open>make_instance(class)\<close> of \<open>atopile.model2.types\<close> allocates a
  fresh Object of that class.
\<close>

definition make_instance :: "state \<Rightarrow> cls \<Rightarrow> val \<times> state" where
  "make_instance st c =
     (VObject (next_oid st),
      st\<lparr>objects := (objects st)(next_oid st := \<lparr>type' = c, start = None, end' = None\<rparr>),
         next_oid := Suc (next_oid st)\<rparr>)"

text \<open>
  Modelled from the spec: \<open>types.InterfaceObject\<close> and \<open>types.LinkObject\<close> are the
  objects whose class is Interface or one of its subtypes, and Link or one of its
  subtypes.
\<close>

definition is_InterfaceObject :: "state \<Rightarrow> val \<Rightarrow> bool" where
  "is_InterfaceObject st v =
     (case v of VObject a \<Rightarrow> is_subclass_of (type' (objects st a)) types_INTERFACE | _ \<Rightarrow> False)"

definition is_LinkObject :: "state \<Rightarrow> val \<Rightarrow> bool" where
  "is_LinkObject st v =
     (case v of VObject a \<Rightarrow> is_subclass_of (type' (objects st a)) types_LINK | _ \<Rightarrow> False)"

text \<open>
  Modelled from the spec: the class \<open>Scope\<close> of \<open>atopile.model2.scope2\<close>. A scope is
  rooted at an entity and chained to a parent; its names are the members of its root, so
  that a scope built later over the same entity resolves against the same members.
  \<open>scope[name]\<close> walks this scope and then each ancestor and fails with NameNotFound;
  \<open>name in scope\<close> mirrors the lookup and never fails; \<open>scope[name] = value\<close> fails with
  NameConflict if the name is already defined in this very scope; \<open>append_anon\<close> adds
  a value that has no name, in order.
\<close>

fun lookup :: "state \<Rightarrow> scope \<Rightarrow> name \<Rightarrow> val option" where
  "lookup st (Scope r None) n = map_of (members st r) n"
| "lookup st (Scope r (Some p)) n =
     (case map_of (members st r) n of Some v \<Rightarrow> Some v | None \<Rightarrow> lookup st p n)"

definition scope_getitem :: "state \<Rightarrow> scope \<Rightarrow> name \<Rightarrow> error + val" where
  "scope_getitem st sc n =
     (case lookup st sc n of Some v \<Rightarrow> Inr v | None \<Rightarrow> Inl (NameNotFound n))"

definition scope_contains :: "state \<Rightarrow> scope \<Rightarrow> name \<Rightarrow> bool" where
  "scope_contains st sc n = (lookup st sc n \<noteq> None)"

definition scope_setitem :: "state \<Rightarrow> scope \<Rightarrow> name \<Rightarrow> val \<Rightarrow> error + state" where
  "scope_setitem st sc n v =
     (if map_of (members st (scope_root sc)) n \<noteq> None then Inl (AtoNameConflictError n)
      else Inr (st\<lparr>members := (members st)(scope_root sc := members st (scope_root sc) @ [(n, v)])\<rparr>))"

definition append_anon :: "state \<Rightarrow> scope \<Rightarrow> val \<Rightarrow> state" where
  "append_anon st sc v = st\<lparr>anon := (anon st)(scope_root sc := anon st (scope_root sc) @ [v])\<rparr>"

subsection \<open>\<open>visitFile_input\<close> and \<open>visitBlocktype\<close>\<close>

text \<open>
  \<open>visitFile_input\<close> builds its result without reading the context: the children
  of the file are not visited (the source marks the empty \<open>locals_\<close> with a TODO).
\<close>

definition visitFile_input :: "file_input \<Rightarrow> Object" where
  "visitFile_input ctx = Object [MODULE] [] [] [] []"

definition visitBlocktype :: "string \<Rightarrow> error + Object" where
  "visitBlocktype block_type_name =
     (if block_type_name = ''module'' then Inr MODULE
      else if block_type_name = ''component'' then Inr COMPONENT
      else Inl (AtoCompileError (UnknownBlockType block_type_name)))"

subsection \<open>\<open>visitName_or_attr\<close>\<close>

text \<open>
  The loop over \<open>path[:-1]\<close>. \<open>Scope(x)\<close> builds a scope rooted at \<open>x\<close> with no parent.
  The test on an attribute reads its type descriptor, not its value.
\<close>

fun descend :: "state \<Rightarrow> scope \<Rightarrow> name list \<Rightarrow> error + scope" where
  "descend st sc [] = Inr sc"
| "descend st sc (attr # path) =
     (case scope_getitem st sc attr of
        Inl e \<Rightarrow> Inl e
      | Inr (VScope s) \<Rightarrow> descend st s path
      | Inr (VClass c) \<Rightarrow> descend st (Scope (VClass c) None) path
      | Inr (VObject a) \<Rightarrow> descend st (Scope (VObject a) None) path
      | Inr (VAttribute (TClass t) x) \<Rightarrow> descend st (Scope x None) path
      | Inr _ \<Rightarrow> Inl (AtoTypeError (NotObjectOrClass attr)))"

definition visitName_or_attr :: "state \<Rightarrow> name_or_attr \<Rightarrow> error + (scope \<times> name)" where
  "visitName_or_attr st ctx =
     (case ctx of
        NoaName t \<Rightarrow> Inr (scope st, visitName t)
      | NoaAttr ts \<Rightarrow>
          (let path = visitAttr ts in
           case descend st (scope st) (butlast path) of
             Inl e \<Rightarrow> Inl e
           | Inr sc \<Rightarrow> if path = [] then Inl PyIndexError else Inr (sc, last path))
      | NoaNeither \<Rightarrow> Inl (AtoCompileError ExpectedNameOrAttr))"

subsection \<open>Block definitions\<close>

text \<open>
  \<open>visitBlockdef\<close> unpacks the result of \<open>visitBlocktype\<close> into two targets. That
  result is one \<open>Object\<close>; an \<open>attrs\<close> class defines neither \<open>__iter__\<close> nor
  \<open>__getitem__\<close>, so the unpacking raises \<open>TypeError\<close>. After \<open>from\<close>, the pair
  returned by \<open>visitName_or_attr\<close> (scope first, name second) is bound to
  \<open>super_name, super_scope\<close> in this order, and \<open>super_scope[super_name]\<close> subscripts
  a name with a scope, which raises \<open>TypeError\<close> for a \<open>str\<close> and for an \<open>int\<close>.
\<close>

definition unpack_Object :: "Object \<Rightarrow> error + (val \<times> val list)" where
  "unpack_Object x = Inl (PyTypeError CannotUnpack)"

definition subscript_name :: "name \<Rightarrow> scope \<Rightarrow> error + val" where
  "subscript_name n sc = Inl (PyTypeError NotSubscriptable)"

definition is_Class :: "val \<Rightarrow> bool" where
  "is_Class v = (case v of VClass c \<Rightarrow> True | _ \<Rightarrow> False)"

definition is_Object :: "val \<Rightarrow> bool" where
  "is_Object v = (case v of VObject a \<Rightarrow> True | _ \<Rightarrow> False)"

definition from_super :: "state \<Rightarrow> from_clause \<Rightarrow> val \<Rightarrow> val list \<Rightarrow> error + val" where
  "from_super st fr default_super allowed_supers =
     (case fr of
        From None \<Rightarrow> Inl (AtoCompileError ExpectedNameAfterFrom)
      | From (Some noa) \<Rightarrow>
          (case visitName_or_attr st noa of
             Inl e \<Rightarrow> Inl e
           | Inr (super_name, super_scope) \<Rightarrow>
               (case subscript_name super_scope super_name of
                  Inl e \<Rightarrow> Inl e
                | Inr actual_super \<Rightarrow>
                    if \<not> is_Class actual_super then Inl (AtoTypeError CanOnlySubclassClasses)
                    else if actual_super \<notin> set allowed_supers
                    then Inl (AtoTypeError CanOnlySubclassAllowed)
                    else Inr actual_super))
      | NoFrom \<Rightarrow> Inr default_super)"

text \<open>The part of \<open>visitBlockdef\<close> before the body is walked.\<close>

definition blockdef_class ::
  "state \<Rightarrow> string \<Rightarrow> string \<Rightarrow> from_clause \<Rightarrow> error + (cls \<times> state)" where
  "blockdef_class st nm bt fr =
     (let new_class_name = visitName nm in
      if scope_contains st (scope st) new_class_name
      then Inl (AtoNameConflictError new_class_name)
      else
        case visitBlocktype bt of
          Inl e \<Rightarrow> Inl e
        | Inr b \<Rightarrow>
            (case unpack_Object b of
               Inl e \<Rightarrow> Inl e
             | Inr (default_super, allowed_supers) \<Rightarrow>
                 (case from_super st fr default_super allowed_supers of
                    Inl e \<Rightarrow> Inl e
                  | Inr actual_super \<Rightarrow> make_subclass st new_class_name actual_super)))"

text \<open>
  Modelled from the spec: the context manager \<open>new_scope\<close>, which the walker calls and
  does not define. It opens a child scope rooted at the new class; when the body has
  been walked it closes the scope and binds the class into the enclosing scope under
  its name.
\<close>

definition enter_scope :: "state \<Rightarrow> cls \<Rightarrow> state" where
  "enter_scope st c = st\<lparr>scope := Scope (VClass c) (Some (scope st))\<rparr>"

definition exit_scope :: "state \<Rightarrow> scope \<Rightarrow> cls \<Rightarrow> error + state" where
  "exit_scope st enclosing c = scope_setitem (st\<lparr>scope := enclosing\<rparr>) enclosing (cname c) (VClass c)"

subsection \<open>Pins, signals and new objects\<close>

definition falsy :: "name \<Rightarrow> bool" where
  "falsy n = (n = NInt 0 \<or> n = NStr [])"

definition visitPindef_stmt :: "state \<Rightarrow> pindef \<Rightarrow> error + (val \<times> state)" where
  "visitPindef_stmt st ctx =
     (case (case ctx of
              PinInteger t \<Rightarrow> map_sum id NInt (visitTotally_an_integer t)
            | PinName t \<Rightarrow> Inr (visitName t)) of
        Inl e \<Rightarrow> Inl e
      | Inr n \<Rightarrow>
          if falsy n then Inl (AtoCompileError PinsMustHaveName)
          else if scope_contains st (scope st) n then Inl (AtoNameConflictError n)
          else
            (case make_instance st types_PIN of
               (pin, st1) \<Rightarrow>
                 (case scope_setitem st1 (scope st1) n pin of
                    Inl e \<Rightarrow> Inl e
                  | Inr st2 \<Rightarrow> Inr (pin, st2))))"

definition visitSignaldef_stmt :: "state \<Rightarrow> string \<Rightarrow> error + (val \<times> state)" where
  "visitSignaldef_stmt st t =
     (let n = visitName t in
      if falsy n then Inl (AtoCompileError SignalsMustHaveName)
      else if scope_contains st (scope st) n then Inl (AtoNameConflictError n)
      else
        (case make_instance st types_INTERFACE of
           (signal, st1) \<Rightarrow>
             (case scope_setitem st1 (scope st1) n signal of
                Inl e \<Rightarrow> Inl e
              | Inr st2 \<Rightarrow> Inr (signal, st2))))"

definition visitNew_stmt :: "state \<Rightarrow> name_or_attr \<Rightarrow> error + (val \<times> state)" where
  "visitNew_stmt st ctx =
     (case visitName_or_attr st ctx of
        Inl e \<Rightarrow> Inl e
      | Inr (sc, name_to_init) \<Rightarrow>
          (case scope_getitem st sc name_to_init of
             Inl e \<Rightarrow> Inl e
           | Inr (VClass c) \<Rightarrow> Inr (make_instance st c)
           | Inr _ \<Rightarrow> Inl (AtoTypeError (CanOnlyInitialise name_to_init))))"

subsection \<open>Imports\<close>

definition is_quote :: "char \<Rightarrow> bool" where
  "is_quote c = (c = CHR 0x22 \<or> c = CHR 0x27)"

definition visitString :: "string \<Rightarrow> string" where
  "visitString text = rev (dropWhile is_quote (rev (dropWhile is_quote text)))"

text \<open>
  The name is resolved by \<open>visitName_or_attr\<close>, that is from the walker's current
  scope; \<open>from_file\<close> is only tested for emptiness.
\<close>

definition visitImport_stmt :: "state \<Rightarrow> string \<Rightarrow> name_or_attr \<Rightarrow> error + state" where
  "visitImport_stmt st string_text noa =
     (let from_file = visitString string_text in
      case visitName_or_attr st noa of
        Inl e \<Rightarrow> Inl e
      | Inr (sc, to_import) \<Rightarrow>
          if from_file = [] then Inl (AtoCompileError ExpectedFromFile)
          else if falsy to_import then Inl (AtoCompileError ExpectedNameToImport)
          else if to_import = NStr ''*'' then Inl NotImplementedError
          else if scope_contains st (scope st) to_import
          then Inl (AtoNameConflictError to_import)
          else
            (case scope_getitem st sc to_import of
               Inl e \<Rightarrow> Inl e
             | Inr v \<Rightarrow> scope_setitem st (scope st) to_import v))"

subsection \<open>Connect statements\<close>

text \<open>
  The value a connectable denotes, before the interface test. The walker has no method
  for a numeric pin reference, so the generated visitor visits its children in order
  and returns the result of the last one, the integer, which is then looked up in
  the walker's current scope. For an inline pin or signal definition the result of the
  definition is taken.
\<close>

definition resolve_connectable :: "state \<Rightarrow> connectable \<Rightarrow> error + (val \<times> state)" where
  "resolve_connectable st ctx =
     (case ctx of
        CName_or_attr noa \<Rightarrow>
          (case visitName_or_attr st noa of
             Inl e \<Rightarrow> Inl e
           | Inr (sc, n) \<Rightarrow>
               (case scope_getitem st sc n of Inl e \<Rightarrow> Inl e | Inr v \<Rightarrow> Inr (v, st)))
      | CNumerical_pin_ref noa t \<Rightarrow>
          (case visitName_or_attr st noa of
             Inl e \<Rightarrow> Inl e
           | Inr _ \<Rightarrow>
               (case visitTotally_an_integer t of
                  Inl e \<Rightarrow> Inl e
                | Inr pin_ref \<Rightarrow>
                    (case scope_getitem st (scope st) (NInt pin_ref) of
                       Inl e \<Rightarrow> Inl e
                     | Inr v \<Rightarrow> Inr (v, st))))
      | CPindef pd \<Rightarrow> visitPindef_stmt st pd
      | CSignaldef t \<Rightarrow> visitSignaldef_stmt st t)"

definition unwrap_attribute :: "val \<Rightarrow> val" where
  "unwrap_attribute v = (case v of VAttribute t x \<Rightarrow> x | _ \<Rightarrow> v)"

definition visitConnectable :: "state \<Rightarrow> connectable \<Rightarrow> error + (val \<times> state)" where
  "visitConnectable st ctx =
     (case resolve_connectable st ctx of
        Inl e \<Rightarrow> Inl e
      | Inr (v, st1) \<Rightarrow>
          (let connectable = unwrap_attribute v in
           if \<not> is_InterfaceObject st1 connectable then Inl (AtoTypeError CannotConnect)
           else Inr (connectable, st1)))"

definition set_link_ends :: "state \<Rightarrow> val \<Rightarrow> val \<Rightarrow> val \<Rightarrow> state" where
  "set_link_ends st link s e =
     (case link of
        VObject a \<Rightarrow> st\<lparr>objects := (objects st)(a := (objects st a)\<lparr>start := Some s, end' := Some e\<rparr>)\<rparr>
      | _ \<Rightarrow> st)"

definition visitConnect_stmt :: "state \<Rightarrow> connectable \<Rightarrow> connectable \<Rightarrow> error + (val \<times> state)" where
  "visitConnect_stmt st c0 c1 =
     (case visitConnectable st c0 of
        Inl e \<Rightarrow> Inl e
      | Inr (s, st1) \<Rightarrow>
          (case visitConnectable st1 c1 of
             Inl e \<Rightarrow> Inl e
           | Inr (e, st2) \<Rightarrow>
               (case make_instance st2 types_LINK of
                  (link, st3) \<Rightarrow>
                    if \<not> is_LinkObject st3 link then Inl (AtoTypeError UnknownError)
                    else
                      (let st4 = set_link_ends st3 link s e in
                       Inr (link, append_anon st4 (scope st4) link)))))"

subsection \<open>Assignments\<close>

definition lower_char :: "char \<Rightarrow> char" where
  "lower_char c =
     (let n = (of_char c :: nat) in if 65 \<le> n \<and> n \<le> 90 then char_of (n + 32) else c)"

definition visitBoolean' :: "string \<Rightarrow> bool" where
  "visitBoolean' text = (map lower_char text = ''true'')"

definition visitAssignable :: "state \<Rightarrow> assignable \<Rightarrow> error + (val \<times> state)" where
  "visitAssignable st ctx =
     (case ctx of
        AName_or_attr noa \<Rightarrow>
          (case visitName_or_attr st noa of
             Inl e \<Rightarrow> Inl e
           | Inr (sc, n) \<Rightarrow>
               (case scope_getitem st sc n of Inl e \<Rightarrow> Inl e | Inr v \<Rightarrow> Inr (v, st)))
      | ANew noa \<Rightarrow> visitNew_stmt st noa
      | ANumber (Integral i) \<Rightarrow> Inr (VInt i, st)
      | ANumber (NonIntegral t) \<Rightarrow> Inr (VFloat t, st)
      | AString t \<Rightarrow> Inr (VStr (visitString t), st)
      | ABoolean t \<Rightarrow> Inr (VBool (visitBoolean' t), st)
      | ANothing \<Rightarrow> Inr (VNone, st))"

text \<open>
  The \<open>match\<close> of \<open>visitAssign_stmt\<close>. A \<open>bool\<close> is an \<open>int\<close> for a class pattern. When no
  case matches, \<open>attr\<close> is unbound and reading it raises \<open>UnboundLocalError\<close>.
\<close>

definition make_attribute :: "state \<Rightarrow> val \<Rightarrow> error + val" where
  "make_attribute st assignable =
     (case assignable of
        VObject a \<Rightarrow> Inr (VAttribute (TClass (type' (objects st a))) (VObject a))
      | VClass c \<Rightarrow> Inr (VAttribute TClassTag (VClass c))
      | VAttribute t v \<Rightarrow> Inr (VAttribute t v)
      | VInt i \<Rightarrow> Inr (VAttribute (TPrim PInt) (VInt i))
      | VBool b \<Rightarrow> Inr (VAttribute (TPrim PBool) (VBool b))
      | VFloat f \<Rightarrow> Inr (VAttribute (TPrim PFloat) (VFloat f))
      | VStr x \<Rightarrow> Inr (VAttribute (TPrim PStr) (VStr x))
      | _ \<Rightarrow> Inl PyUnboundLocalError)"

definition visitAssign_stmt :: "state \<Rightarrow> name_or_attr \<Rightarrow> assignable \<Rightarrow> error + state" where
  "visitAssign_stmt st target_ctx assignable_ctx =
     (case visitName_or_attr st target_ctx of
        Inl e \<Rightarrow> Inl e
      | Inr (sc, n) \<Rightarrow>
          (case visitAssignable st assignable_ctx of
             Inl e \<Rightarrow> Inl e
           | Inr (assignable, st1) \<Rightarrow>
               (case make_attribute st1 assignable of
                  Inl e \<Rightarrow> Inl e
                | Inr attr \<Rightarrow> scope_setitem st1 sc n attr)))"

subsection \<open>Retype statements\<close>

definition set_type :: "state \<Rightarrow> nat \<Rightarrow> cls \<Rightarrow> state" where
  "set_type st a c = st\<lparr>objects := (objects st)(a := (objects st a)\<lparr>type' := c\<rparr>)\<rparr>"

definition visitRetype_stmt :: "state \<Rightarrow> name_or_attr \<Rightarrow> name_or_attr \<Rightarrow> error + state" where
  "visitRetype_stmt st ctx0 ctx1 =
     (case visitName_or_attr st ctx0 of
        Inl e \<Rightarrow> Inl e
      | Inr (obj_scope, obj_name) \<Rightarrow>
          (case visitName_or_attr st ctx1 of
             Inl e \<Rightarrow> Inl e
           | Inr (target_scope, target_name) \<Rightarrow>
               (case scope_getitem st obj_scope obj_name of
                  Inl e \<Rightarrow> Inl e
                | Inr (VObject a) \<Rightarrow>
                    (case scope_getitem st target_scope target_name of
                       Inl e \<Rightarrow> Inl e
                     | Inr (VClass c) \<Rightarrow>
                         if \<not> is_subclass_of c (type' (objects st a))
                         then Inl (AtoTypeError
                                (NotASubclass obj_name target_name (cname (type' (objects st a)))))
                         else Inr (set_type st a c)
                     | Inr _ \<Rightarrow> Inl (AtoTypeError (CanOnlyRetypeToClasses target_name)))
                | Inr _ \<Rightarrow> Inl (AtoTypeError (CanOnlyRetypeObjects obj_name)))))"

subsection \<open>Statements in source order\<close>

text \<open>
  The visitor's dispatch on the kind of a statement, and the walk of the statements of
  a block one after the other; the first exception ends the walk. Inside the new scope
  \<open>visitBlockdef\<close> visits all children of the definition: the name and the block type
  again, whose visits have no effect, the name-or-attribute node after \<open>from\<close>, and
  the body. \<open>visitWith_stmt\<close> raises \<open>NotImplementedError\<close>.
\<close>

definition visit_from_child :: "state \<Rightarrow> from_clause \<Rightarrow> error + unit" where
  "visit_from_child st fr =
     (case fr of
        From (Some noa) \<Rightarrow> map_sum id (\<lambda>_. ()) (visitName_or_attr st noa)
      | _ \<Rightarrow> Inr ())"

fun visit_stmt :: "state \<Rightarrow> stmt \<Rightarrow> error + state"
  and visit_stmts :: "state \<Rightarrow> stmt list \<Rightarrow> error + state" where
  "visit_stmt st (Blockdef nm bt fr body) =
     (case blockdef_class st nm bt fr of
        Inl e \<Rightarrow> Inl e
      | Inr (new_class, st1) \<Rightarrow>
          (case visit_from_child (enter_scope st1 new_class) fr of
             Inl e \<Rightarrow> Inl e
           | Inr _ \<Rightarrow>
               (case visit_stmts (enter_scope st1 new_class) body of
                  Inl e \<Rightarrow> Inl e
                | Inr st2 \<Rightarrow> exit_scope st2 (scope st1) new_class)))"
| "visit_stmt st (Pindef_stmt pd) = map_sum id snd (visitPindef_stmt st pd)"
| "visit_stmt st (Signaldef_stmt t) = map_sum id snd (visitSignaldef_stmt st t)"
| "visit_stmt st (Import_stmt f noa) = visitImport_stmt st f noa"
| "visit_stmt st (Connect_stmt c0 c1) = map_sum id snd (visitConnect_stmt st c0 c1)"
| "visit_stmt st With_stmt = Inl NotImplementedError"
| "visit_stmt st (Assign_stmt noa a) = visitAssign_stmt st noa a"
| "visit_stmt st (Retype_stmt ctx0 ctx1) = visitRetype_stmt st ctx0 ctx1"
| "visit_stmts st [] = Inr st"
| "visit_stmts st (s # ss) =
     (case visit_stmt st s of Inl e \<Rightarrow> Inl e | Inr st1 \<Rightarrow> visit_stmts st1 ss)"

subsection \<open>Notions used to state the properties\<close>

text \<open>The value of a string of decimal digits.\<close>

definition decimal :: "string \<Rightarrow> int" where
  "decimal s = foldl (\<lambda>a c. a * 10 + digit_val c) 0 s"

text \<open>
  The category TypeMismatch of the error taxonomy is the exception class
  \<open>AtoTypeError\<close>: it is what the walker raises when it connects a value that is not an
  interface, instantiates a value that is not a class, or retypes to a class that is
  not a subclass.
\<close>

definition is_TypeMismatch :: "error \<Rightarrow> bool" where
  "is_TypeMismatch e = (case e of AtoTypeError m \<Rightarrow> True | _ \<Rightarrow> False)"

text \<open>
  Every object that exists in the first state exists in the second with the same
  fields: same class, same link ends. The names and anonymous items of scopes are not
  compared here.
\<close>

definition unchanged_objects :: "state \<Rightarrow> state \<Rightarrow> bool" where
  "unchanged_objects st st1 =
     (next_oid st \<le> next_oid st1 \<and> (\<forall>a < next_oid st. objects st1 a = objects st a))"

text \<open>
  The names and the anonymous items of every entity in the first state are still there
  in the second, in the same order and with the same values; the second state may have
  more of them at the end.
\<close>

definition only_added :: "state \<Rightarrow> state \<Rightarrow> bool" where
  "only_added st st1 =
     ((\<forall>r. \<exists>ys. members st1 r = members st r @ ys) \<and> (\<forall>r. \<exists>ys. anon st1 r = anon st r @ ys))"

text \<open>
  The resolution of the leading segments of a dotted path, as a relation: a segment
  bound to a scope is descended into directly; a segment bound to a class or an object
  continues in a scope over that entity; a segment bound to an attribute whose type
  descriptor is a class continues in a scope over the attribute's value.
\<close>

definition descendable :: "val \<Rightarrow> bool" where
  "descendable v =
     (case v of
        VScope s \<Rightarrow> True
      | VClass c \<Rightarrow> True
      | VObject a \<Rightarrow> True
      | VAttribute (TClass t) x \<Rightarrow> True
      | _ \<Rightarrow> False)"

inductive resolves :: "state \<Rightarrow> scope \<Rightarrow> name list \<Rightarrow> scope \<Rightarrow> bool" for st :: state where
  resolves_Nil: "resolves st sc [] sc"
| resolves_Scope:
    "lookup st sc a = Some (VScope s) \<Longrightarrow> resolves st s path sc1 \<Longrightarrow> resolves st sc (a # path) sc1"
| resolves_Class:
    "lookup st sc a = Some (VClass c) \<Longrightarrow> resolves st (Scope (VClass c) None) path sc1
      \<Longrightarrow> resolves st sc (a # path) sc1"
| resolves_Object:
    "lookup st sc a = Some (VObject b) \<Longrightarrow> resolves st (Scope (VObject b) None) path sc1
      \<Longrightarrow> resolves st sc (a # path) sc1"
| resolves_Attribute:
    "lookup st sc a = Some (VAttribute (TClass t) x) \<Longrightarrow> resolves st (Scope x None) path sc1
      \<Longrightarrow> resolves st sc (a # path) sc1"

subsection \<open>Example inputs\<close>

text \<open>
  A state in which a file is being walked: object 0 is the root object of the file, the
  current scope is rooted at it, and the classes \<open>Resistor\<close>, \<open>Resistor2\<close> (a subclass
  of \<open>Resistor\<close>) and \<open>Capacitor\<close> are bound in it. Object 1 is the root object of
  another file, which is bound under \<open>lib\<close> and whose scope defines \<open>R\<close>.
\<close>

definition Resistor :: cls where
  "Resistor = Class 6 (NStr ''Resistor'') (Some types_COMPONENT)"

definition Resistor2 :: cls where
  "Resistor2 = Class 7 (NStr ''Resistor2'') (Some Resistor)"

definition Capacitor :: cls where
  "Capacitor = Class 8 (NStr ''Capacitor'') (Some types_COMPONENT)"

definition example_members :: "val \<Rightarrow> (name \<times> val) list" where
  "example_members r =
     (if r = VObject 0 then
        [(NStr ''Resistor'', VClass Resistor), (NStr ''Resistor2'', VClass Resistor2),
         (NStr ''Capacitor'', VClass Capacitor), (NStr ''lib'', VObject 1)]
      else if r = VObject 1 then [(NStr ''R'', VClass Resistor)]
      else [])"

definition example_state :: state where
  "example_state =
     \<lparr>objects = (\<lambda>a. \<lparr>type' = types_MODULE, start = None, end' = None\<rparr>),
      next_oid = 2,
      members = example_members,
      anon = (\<lambda>r. []),
      next_cid = 9,
      scope = Scope (VObject 0) None\<rparr>"

definition lib_scope :: scope where
  "lib_scope = Scope (VObject 1) None"

definition vdiv_body :: "stmt list" where
  "vdiv_body =
     [Signaldef_stmt ''top'', Signaldef_stmt ''out'', Signaldef_stmt ''bottom'',
      Assign_stmt (NoaName ''r_top'') (ANew (NoaName ''Resistor'')),
      Assign_stmt (NoaName ''r_bottom'') (ANew (NoaName ''Resistor'')),
      Connect_stmt (CNumerical_pin_ref (NoaName ''r_top'') ''2'') (CName_or_attr (NoaName ''out'')),
      Connect_stmt (CNumerical_pin_ref (NoaName ''r_bottom'') ''1'') (CName_or_attr (NoaName ''out'')),
      Connect_stmt (CNumerical_pin_ref (NoaName ''r_bottom'') ''2'')
        (CName_or_attr (NoaName ''bottom''))]"

definition vdiv_file :: file_input where
  "vdiv_file = [Blockdef ''VDiv'' ''module'' NoFrom vdiv_body]"

definition twice_p1_file :: file_input where
  "twice_p1_file =
     [Blockdef ''A'' ''module'' NoFrom [Pindef_stmt (PinName ''p1''), Pindef_stmt (PinName ''p1'')]]"

text \<open>
  A state in which the signal \<open>s1\<close> has been declared (object 2, an instance of
  Interface, bound without an attribute) and the class \<open>Probe\<close>, a subclass of
  Interface, is bound next to \<open>Capacitor\<close>.
\<close>

definition Probe :: cls where
  "Probe = Class 9 (NStr ''Probe'') (Some types_INTERFACE)"

definition retype_members :: "val \<Rightarrow> (name \<times> val) list" where
  "retype_members r =
     (if r = VObject 0 then
        [(NStr ''Probe'', VClass Probe), (NStr ''Capacitor'', VClass Capacitor),
         (NStr ''s1'', VObject 2)]
      else [])"

definition retype_state :: state where
  "retype_state =
     \<lparr>objects = (\<lambda>a. if a = 2 then \<lparr>type' = types_INTERFACE, start = None, end' = None\<rparr>
                      else \<lparr>type' = types_MODULE, start = None, end' = None\<rparr>),
      next_oid = 3,
      members = retype_members,
      anon = (\<lambda>r. []),
      next_cid = 10,
      scope = Scope (VObject 0) None\<rparr>"

section \<open>Properties\<close>

subsection \<open>Integer literals\<close>

lemma digit_not_space: "is_digit c \<Longrightarrow> \<not> is_space c"
  by (simp add: is_digit_def is_space_def Let_def)

lemma digit_not_sign: "is_digit c \<Longrightarrow> c \<noteq> CHR ''-'' \<and> c \<noteq> CHR ''+''"
  by (auto simp: is_digit_def Let_def)

lemma parse_digits_all:
  "\<forall>c\<in>set cs. is_digit c \<Longrightarrow>
    parse_digits acc cs = Some (foldl (\<lambda>a c. a * 10 + digit_val c) acc cs)"
  by (induction acc cs rule: parse_digits.induct) auto

lemma strip_space_digits:
  assumes "t \<noteq> []" and "\<forall>c\<in>set t. is_digit c"
  shows "strip_space t = t"
proof -
  from assms obtain c cs where t: "t = c # cs" by (cases t) auto
  with assms have "\<not> is_space c" by (simp add: digit_not_space)
  then have front: "dropWhile is_space t = t" by (simp add: t)
  from assms have "rev t \<noteq> []" and "\<forall>c\<in>set (rev t). is_digit c" by auto
  then obtain d ds where "rev t = d # ds" and "is_digit d" by (cases "rev t") auto
  then have "dropWhile is_space (rev t) = rev t" by (simp add: digit_not_space)
  with front show ?thesis by (simp add: strip_space_def)
qed

lemma py_int_digits:
  assumes "t \<noteq> []" and "\<forall>c\<in>set t. is_digit c" and "length t \<le> max_str_digits"
  shows "py_int t = Some (decimal t)"
proof -
  from assms obtain c cs where t: "t = c # cs" by (cases t) auto
  with assms have c: "is_digit c" and cs: "\<forall>c\<in>set cs. is_digit c" by auto
  from cs have f: "filter is_digit cs = cs" by simp
  from assms(3) t have len: "\<not> max_str_digits < Suc (length cs)" by simp
  show ?thesis
    using c cs digit_not_sign [OF c] strip_space_digits [OF assms(1,2)] f len
    by (simp add: py_int_def t parse_unsigned_def parse_digits_all decimal_def)
qed

lemmas int_eval =
  py_int_def max_str_digits_def strip_space_def is_space_def is_digit_def digit_val_def
  parse_unsigned_def
  visitName_def visitTotally_an_integer_def

text \<open>
  The separators 28 to 31 are not whitespace for \<open>int\<close>: a text that starts with one
  does not parse, so as a name it stays the string it is.
\<close>

lemma separator_is_not_stripped:
  "py_int [CHR 0x1F, CHR ''3''] = None
   \<and> visitName [CHR 0x1F, CHR ''3''] = NStr [CHR 0x1F, CHR ''3'']
   \<and> py_int [CHR 0x20, CHR ''3'', CHR 0x0A] = Some 3"
  by (simp add: int_eval)

lemma py_int_too_long:
  assumes "\<forall>c\<in>set t. is_digit c" and "max_str_digits < length t"
  shows "py_int t = None"
proof -
  from assms(2) have ne: "t \<noteq> []" by auto
  then obtain c cs where t: "t = c # cs" by (cases t) auto
  with assms have c: "is_digit c" and cs: "\<forall>c\<in>set cs. is_digit c" by auto
  from cs have f: "filter is_digit cs = cs" by simp
  from assms(2) t have len: "max_str_digits < Suc (length cs)" by simp
  show ?thesis
    using c digit_not_sign [OF c] strip_space_digits [OF ne assms(1)] f len
    by (simp add: py_int_def t)
qed

text \<open>
  Claim C9, as stated, at the number token \<open>1.5\<close> where an integer pin index is
  required: the walk fails with \<open>AtoTypeError\<close>, which is the TypeMismatch class itself
  and no category of its own.
\<close>

theorem C9_counterexample:
  "py_int ''1.5'' = None
   \<and> visitTotally_an_integer ''1.5'' = Inl (AtoTypeError (ExpectedInteger ''1.5''))
   \<and> is_TypeMismatch (AtoTypeError (ExpectedInteger ''1.5''))"
  by (simp add: int_eval is_TypeMismatch_def)

text \<open>
  Claim C9, amended: a token whose text does not parse as an integer makes the walk
  fail with the type error \<open>AtoTypeError\<close> carrying the text, the same class as a type
  mismatch; a token whose text parses as an integer yields that integer. A non-empty
  string of decimal digits parses as its decimal value when it has at most 4300
  digits, and does not parse when it has more.
\<close>

theorem C9_integer_or_type_error:
  "(py_int t = None \<longrightarrow>
      visitTotally_an_integer t = Inl (AtoTypeError (ExpectedInteger t))
      \<and> (\<forall>e. visitTotally_an_integer t = Inl e \<longrightarrow> is_TypeMismatch e))
   \<and> (\<forall>i. py_int t = Some i \<longrightarrow> visitTotally_an_integer t = Inr i)
   \<and> (t \<noteq> [] \<and> (\<forall>c\<in>set t. is_digit c) \<and> length t \<le> max_str_digits \<longrightarrow>
        visitTotally_an_integer t = Inr (decimal t))
   \<and> ((\<forall>c\<in>set t. is_digit c) \<and> max_str_digits < length t \<longrightarrow>
        visitTotally_an_integer t = Inl (AtoTypeError (ExpectedInteger t)))"
  using py_int_digits [of t] py_int_too_long [of t]
  by (auto simp: visitTotally_an_integer_def is_TypeMismatch_def)

theorem C9_integer_or_type_error_witness:
  "py_int ''1.5'' = None
   \<and> visitTotally_an_integer ''1.5'' = Inl (AtoTypeError (ExpectedInteger ''1.5''))
   \<and> py_int ''0x10'' = None
   \<and> visitTotally_an_integer ''0x10'' = Inl (AtoTypeError (ExpectedInteger ''0x10''))
   \<and> py_int ''12'' = Some 12
   \<and> visitTotally_an_integer ''12'' = Inr 12
   \<and> visitTotally_an_integer ''12'' = Inr (decimal ''12'')
   \<and> max_str_digits < length (replicate 4301 (CHR ''7''))
   \<and> visitTotally_an_integer (replicate 4301 (CHR ''7''))
       = Inl (AtoTypeError (ExpectedInteger (replicate 4301 (CHR ''7''))))"
proof -
  have a: "py_int ''1.5'' = None" by (simp add: int_eval)
  have a2: "py_int ''0x10'' = None" by (simp add: int_eval)
  have b: "py_int ''12'' = Some 12" by (simp add: int_eval)
  have c: "''12'' \<noteq> [] \<and> (\<forall>c\<in>set ''12''. is_digit c) \<and> length ''12'' \<le> max_str_digits"
    by (simp add: is_digit_def max_str_digits_def)
  have l: "(\<forall>c\<in>set (replicate 4301 (CHR ''7'')). is_digit c)
      \<and> max_str_digits < length (replicate 4301 (CHR ''7''))"
    by (simp add: is_digit_def max_str_digits_def)
  from a C9_integer_or_type_error [of "''1.5''"]
  have d: "visitTotally_an_integer ''1.5'' = Inl (AtoTypeError (ExpectedInteger ''1.5''))"
    by blast
  from a2 C9_integer_or_type_error [of "''0x10''"]
  have d2: "visitTotally_an_integer ''0x10'' = Inl (AtoTypeError (ExpectedInteger ''0x10''))"
    by blast
  from b C9_integer_or_type_error [of "''12''"]
  have e: "visitTotally_an_integer ''12'' = Inr 12" by blast
  from c C9_integer_or_type_error [of "''12''"]
  have f: "visitTotally_an_integer ''12'' = Inr (decimal ''12'')" by blast
  from l C9_integer_or_type_error [of "replicate 4301 (CHR ''7'')"]
  have g: "visitTotally_an_integer (replicate 4301 (CHR ''7''))
       = Inl (AtoTypeError (ExpectedInteger (replicate 4301 (CHR ''7''))))"
    by blast
  from l have l2: "max_str_digits < length (replicate 4301 (CHR ''7''))" by blast
  from a a2 b d d2 e f g l2 show ?thesis by blast
qed

subsection \<open>Evaluation on the example inputs\<close>

lemmas class_eval =
  types_MODULE_def types_COMPONENT_def types_INTERFACE_def types_PIN_def types_SIGNAL_def
  types_LINK_def Resistor_def Resistor2_def Capacitor_def is_subclass_of_def

lemmas scope_eval =
  scope_getitem_def scope_contains_def scope_setitem_def append_anon_def
  example_state_def example_members_def lib_scope_def

lemmas walker_eval =
  visitName_or_attr_def visitAttr_def visitPindef_stmt_def visitSignaldef_stmt_def
  visitNew_stmt_def visitImport_stmt_def visitString_def is_quote_def
  resolve_connectable_def unwrap_attribute_def visitConnectable_def set_link_ends_def
  visitConnect_stmt_def visitAssignable_def make_attribute_def visitAssign_stmt_def
  set_type_def visitRetype_stmt_def make_instance_def is_InterfaceObject_def
  is_LinkObject_def falsy_def blockdef_class_def visitBlocktype_def unpack_Object_def
  from_super_def subscript_name_def make_subclass_def

lemma n_VDiv: "visitName ''VDiv'' = NStr ''VDiv''"
  by (simp add: int_eval)

lemma n_A: "visitName ''A'' = NStr ''A''"
  by (simp add: int_eval)

lemma n_p1: "visitName ''p1'' = NStr ''p1''"
  by (simp add: int_eval)

lemma n_dummy: "visitName ''dummy'' = NStr ''dummy''"
  by (simp add: int_eval)

lemma n_Resistor: "visitName ''Resistor'' = NStr ''Resistor''"
  by (simp add: int_eval)

lemma n_Resistor2: "visitName ''Resistor2'' = NStr ''Resistor2''"
  by (simp add: int_eval)

subsection \<open>Block definitions and files\<close>

text \<open>
  No block definition gets as far as creating its class: when the name is free and the
  block type is known, unpacking the single \<open>Object\<close> that \<open>visitBlocktype\<close> returns
  raises the interpreter's \<open>TypeError\<close>.
\<close>

lemma blockdef_class_fails:
  "blockdef_class st nm bt fr =
     (if scope_contains st (scope st) (visitName nm) then Inl (AtoNameConflictError (visitName nm))
      else if bt = ''module'' \<or> bt = ''component'' then Inl (PyTypeError CannotUnpack)
      else Inl (AtoCompileError (UnknownBlockType bt)))"
  by (simp add: blockdef_class_def visitBlocktype_def unpack_Object_def Let_def)

lemma visit_Blockdef:
  "visit_stmt st (Blockdef nm bt fr body) =
     (if scope_contains st (scope st) (visitName nm) then Inl (AtoNameConflictError (visitName nm))
      else if bt = ''module'' \<or> bt = ''component'' then Inl (PyTypeError CannotUnpack)
      else Inl (AtoCompileError (UnknownBlockType bt)))"
  by (simp add: blockdef_class_fails)

text \<open>
  Claim C1, evaluated on the file that declares the module \<open>VDiv\<close>: \<open>visitFile_input\<close>
  returns a root object whose \<open>locals_\<close> is empty, so no object for \<open>VDiv\<close> is reachable
  from it; and visiting the children of the file, which \<open>visitFile_input\<close> does not
  do, stops at the block definition with the interpreter's \<open>TypeError\<close>.
\<close>

theorem C1_file_not_walked:
  "visitFile_input vdiv_file = Object [MODULE] [] [] [] []
   \<and> map_of (locals' (visitFile_input vdiv_file)) (NStr ''VDiv'') = None
   \<and> visit_stmts example_state vdiv_file = Inl (PyTypeError CannotUnpack)"
  by (simp add: visitFile_input_def vdiv_file_def blockdef_class_fails n_VDiv scope_eval)

text \<open>
  Claim C2, evaluated on the definitions \<open>module A:\<close> and \<open>component A:\<close> in a scope
  where \<open>A\<close> is free: the block type yields the default base, and then the definition
  fails with the interpreter's \<open>TypeError\<close>; no class is created or bound.
\<close>

theorem C2_blockdef_fails:
  "visitBlocktype ''module'' = Inr MODULE
   \<and> visitBlocktype ''component'' = Inr COMPONENT
   \<and> scope_contains example_state (scope example_state) (visitName ''A'') = False
   \<and> visit_stmt example_state (Blockdef ''A'' ''module'' NoFrom []) = Inl (PyTypeError CannotUnpack)
   \<and> visit_stmt example_state (Blockdef ''A'' ''component'' NoFrom []) = Inl (PyTypeError CannotUnpack)"
  by (simp add: visitBlocktype_def blockdef_class_fails n_A scope_eval)

text \<open>
  Claim C7, evaluated on a file whose block declares \<open>pin p1\<close> twice: \<open>visitFile_input\<close>
  returns a root object and raises nothing; walking the file's children stops at the
  block definition with the interpreter's \<open>TypeError\<close>, not with a name conflict; the
  two pin definitions visited one after the other in one scope do raise the name
  conflict.
\<close>

theorem C7_twice_p1:
  "visitFile_input twice_p1_file = Object [MODULE] [] [] [] []
   \<and> visit_stmts example_state twice_p1_file = Inl (PyTypeError CannotUnpack)
   \<and> visit_stmts example_state [Pindef_stmt (PinName ''p1''), Pindef_stmt (PinName ''p1'')]
       = Inl (AtoNameConflictError (NStr ''p1''))"
  by (simp add: visitFile_input_def twice_p1_file_def blockdef_class_fails n_A n_p1 scope_eval
      walker_eval)

subsection \<open>Retyping\<close>

text \<open>
  Claim C4, evaluated on \<open>dummy = new Resistor\<close> followed by \<open>dummy -> Resistor2\<close>: the
  assignment binds \<open>dummy\<close> to an attribute that holds the new object, and the retype
  statement, which does not unwrap attributes, fails with the type error "can only
  retype objects".
\<close>

theorem C4_retype_after_new:
  "(case visit_stmt example_state (Assign_stmt (NoaName ''dummy'') (ANew (NoaName ''Resistor''))) of
      Inl e \<Rightarrow> False
    | Inr st1 \<Rightarrow>
        lookup st1 (scope st1) (NStr ''dummy'') = Some (VAttribute (TClass Resistor) (VObject 2))
        \<and> type' (objects st1 2) = Resistor
        \<and> lookup st1 (scope st1) (NStr ''Resistor2'') = Some (VClass Resistor2)
        \<and> is_subclass_of Resistor2 Resistor
        \<and> visitRetype_stmt st1 (NoaName ''dummy'') (NoaName ''Resistor2'')
            = Inl (AtoTypeError (CanOnlyRetypeObjects (NStr ''dummy''))))
   \<and> visit_stmts example_state
        [Assign_stmt (NoaName ''dummy'') (ANew (NoaName ''Resistor'')),
         Retype_stmt (NoaName ''dummy'') (NoaName ''Resistor2'')]
       = Inl (AtoTypeError (CanOnlyRetypeObjects (NStr ''dummy'')))"
  by (simp add: n_dummy n_Resistor n_Resistor2 scope_eval walker_eval class_eval)

subsection \<open>Names that are integers\<close>






lemma scope_setitem_Inr:
  assumes "scope_setitem st sc n v = Inr st1"
  shows "map_of (members st1 (scope_root sc)) n = Some v"
    and "k \<noteq> n \<Longrightarrow> map_of (members st1 r) k = map_of (members st r) k"
    and "scope st1 = scope st" and "objects st1 = objects st" and "next_oid st1 = next_oid st"
    and "anon st1 = anon st"
  using assms by (auto simp: scope_setitem_def map_add_def split: if_splits option.splits)

lemma make_instance_frame:
  assumes "make_instance st c = (v, st1)"
  shows "members st1 = members st" and "scope st1 = scope st" and "anon st1 = anon st"
    and "v = VObject (next_oid st)" and "next_oid st1 = Suc (next_oid st)"
    and "objects st1 = (objects st)(next_oid st := \<lparr>type' = c, start = None, end' = None\<rparr>)"
  using assms by (auto simp: make_instance_def)



lemma visitNew_frame:
  assumes "visitNew_stmt st noa = Inr (v, st1)"
  shows "members st1 = members st \<and> scope st1 = scope st \<and> anon st1 = anon st"
proof -
  from assms obtain c where "make_instance st c = (v, st1)"
    by (auto simp: visitNew_stmt_def split: sum.splits prod.splits val.splits)
  then show ?thesis by (auto simp: make_instance_def)
qed

lemma visitAssignable_frame:
  assumes "visitAssignable st a = Inr (v, st1)"
  shows "members st1 = members st \<and> scope st1 = scope st \<and> anon st1 = anon st"
proof (cases a)
  case (ANew noa)
  with assms have "visitNew_stmt st noa = Inr (v, st1)" by (simp add: visitAssignable_def)
  then show ?thesis by (rule visitNew_frame)
next
  case (AName_or_attr noa)
  with assms show ?thesis
    by (auto simp: visitAssignable_def split: sum.splits prod.splits)
next
  case (ANumber f)
  with assms show ?thesis by (cases f) (auto simp: visitAssignable_def)
next
  case (AString x)
  with assms show ?thesis by (auto simp: visitAssignable_def)
next
  case (ABoolean x)
  with assms show ?thesis by (auto simp: visitAssignable_def)
next
  case ANothing
  with assms show ?thesis by (auto simp: visitAssignable_def)
qed






subsection \<open>Dotted paths\<close>

lemma scope_getitem_Inr: "scope_getitem st sc a = Inr v \<longleftrightarrow> lookup st sc a = Some v"
  by (simp add: scope_getitem_def split: option.splits)

lemma scope_getitem_Inl: "scope_getitem st sc a = Inl e \<longleftrightarrow> lookup st sc a = None \<and> e = NameNotFound a"
  by (auto simp: scope_getitem_def split: option.splits)

lemma descend_step:
  "descend st sc (a # path) =
     (case lookup st sc a of
        None \<Rightarrow> Inl (NameNotFound a)
      | Some v \<Rightarrow>
          if descendable v
          then descend st (case v of VScope s \<Rightarrow> s | VAttribute t x \<Rightarrow> Scope x None
                                   | _ \<Rightarrow> Scope v None) path
          else Inl (AtoTypeError (NotObjectOrClass a)))"
  by (simp add: scope_getitem_def descendable_def split: option.splits val.splits tdesc.splits)

inductive_cases resolves_ConsE: "resolves st sc (a # path) sc1"

lemma resolves_Cons:
  "resolves st sc (a # path) sc1 \<longleftrightarrow>
     (\<exists>v. lookup st sc a = Some v \<and> descendable v
        \<and> resolves st (case v of VScope s \<Rightarrow> s | VAttribute t x \<Rightarrow> Scope x None
                                 | _ \<Rightarrow> Scope v None) path sc1)"
  (is "?lhs \<longleftrightarrow> ?rhs")
proof
  assume ?lhs
  then show ?rhs
    by (rule resolves_ConsE) (simp_all add: descendable_def)
next
  assume ?rhs
  then obtain v where l: "lookup st sc a = Some v" and d: "descendable v"
    and r: "resolves st (case v of VScope s \<Rightarrow> s | VAttribute t x \<Rightarrow> Scope x None
                                 | _ \<Rightarrow> Scope v None) path sc1"
    by blast
  show ?lhs
  proof (cases v)
    case (VScope s)
    with l r show ?thesis by (simp add: resolves_Scope)
  next
    case (VClass c)
    with l r show ?thesis by (simp add: resolves_Class)
  next
    case (VObject b)
    with l r show ?thesis by (simp add: resolves_Object)
  next
    case (VAttribute t x)
    with d obtain c where "t = TClass c" by (cases t) (simp_all add: descendable_def)
    with VAttribute l r show ?thesis by (simp add: resolves_Attribute)
  qed (use d in \<open>simp_all add: descendable_def\<close>)
qed

lemma resolves_Nil_iff: "resolves st sc [] sc1 \<longleftrightarrow> sc1 = sc"
  by (subst resolves.simps) auto

lemma descend_resolves: "descend st sc path = Inr sc1 \<longleftrightarrow> resolves st sc path sc1"
proof (induction path arbitrary: sc)
  case Nil
  show ?case by (auto simp: resolves_Nil_iff)
next
  case (Cons a path)
  show ?case
    by (simp only: descend_step resolves_Cons) (auto simp: Cons.IH split: option.splits)
qed

lemma descend_fails:
  "descend st sc path = Inl e \<Longrightarrow>
     \<exists>pre a post sc1. path = pre @ a # post \<and> resolves st sc pre sc1
       \<and> ((lookup st sc1 a = None \<and> e = NameNotFound a)
          \<or> (\<exists>v. lookup st sc1 a = Some v \<and> \<not> descendable v
               \<and> e = AtoTypeError (NotObjectOrClass a)))"
proof (induction path arbitrary: sc)
  case Nil
  then show ?case by simp
next
  case (Cons a path)
  show ?case
  proof (cases "lookup st sc a")
    case None
    with Cons.prems have "e = NameNotFound a" by (simp only: descend_step) simp
    with None have "a # path = [] @ a # path \<and> resolves st sc [] sc
       \<and> ((lookup st sc a = None \<and> e = NameNotFound a)
          \<or> (\<exists>v. lookup st sc a = Some v \<and> \<not> descendable v
               \<and> e = AtoTypeError (NotObjectOrClass a)))"
      by (simp add: resolves_Nil)
    then show ?thesis by blast
  next
    case (Some v)
    show ?thesis
    proof (cases "descendable v")
      case False
      with Some Cons.prems have "e = AtoTypeError (NotObjectOrClass a)"
        by (simp only: descend_step) simp
      with Some False have "a # path = [] @ a # path \<and> resolves st sc [] sc
         \<and> ((lookup st sc a = None \<and> e = NameNotFound a)
            \<or> (\<exists>v. lookup st sc a = Some v \<and> \<not> descendable v
                 \<and> e = AtoTypeError (NotObjectOrClass a)))"
        by (simp add: resolves_Nil)
      then show ?thesis by blast
    next
      case True
      let ?next = "case v of VScope s \<Rightarrow> s | VAttribute t x \<Rightarrow> Scope x None | _ \<Rightarrow> Scope v None"
      from Some True Cons.prems have "descend st ?next path = Inl e"
        by (simp only: descend_step) simp
      from Cons.IH [OF this] obtain pre b post sc1 where
        p: "path = pre @ b # post" and r: "resolves st ?next pre sc1"
        and f: "(lookup st sc1 b = None \<and> e = NameNotFound b)
          \<or> (\<exists>v. lookup st sc1 b = Some v \<and> \<not> descendable v
               \<and> e = AtoTypeError (NotObjectOrClass b))"
        by blast
      from Some True r have "resolves st sc (a # pre) sc1"
        by (simp only: resolves_Cons) blast
      with p f have "a # path = (a # pre) @ b # post \<and> resolves st sc (a # pre) sc1
         \<and> ((lookup st sc1 b = None \<and> e = NameNotFound b)
          \<or> (\<exists>v. lookup st sc1 b = Some v \<and> \<not> descendable v
               \<and> e = AtoTypeError (NotObjectOrClass b)))"
        by simp
      then show ?thesis by blast
    qed
  qed
qed

lemma visitName_or_attr_Attr_Inr:
  "visitName_or_attr st (NoaAttr ts) = Inr (sc, n) \<longleftrightarrow>
     ts \<noteq> [] \<and> resolves st (scope st) (map visitName (butlast ts)) sc \<and> n = visitName (last ts)"
proof -
  have "visitName_or_attr st (NoaAttr ts) = Inr (sc, n) \<longleftrightarrow>
     ts \<noteq> [] \<and> descend st (scope st) (map visitName (butlast ts)) = Inr sc \<and> n = visitName (last ts)"
    by (auto simp: visitName_or_attr_def visitAttr_def Let_def last_map map_butlast
        split: sum.splits)
  then show ?thesis by (simp add: descend_resolves)
qed

lemma visitName_or_attr_Attr_Inl:
  assumes "ts \<noteq> []" and "visitName_or_attr st (NoaAttr ts) = Inl e"
  shows "descend st (scope st) (map visitName (butlast ts)) = Inl e"
  using assms
  by (auto simp: visitName_or_attr_def visitAttr_def Let_def map_butlast split: sum.splits)

lemma n_x: "visitName ''x'' = NStr ''x''"
  by (simp add: int_eval)

lemma n_p: "visitName ''p'' = NStr ''p''"
  by (simp add: int_eval)

lemma n_lib: "visitName ''lib'' = NStr ''lib''"
  by (simp add: int_eval)


lemma n_nope: "visitName ''nope'' = NStr ''nope''"
  by (simp add: int_eval)

lemma n_d: "visitName ''d'' = NStr ''d''"
  by (simp add: int_eval)

text \<open>
  Claim C6, evaluated after the assignments \<open>x = Resistor\<close> and \<open>d = new Resistor\<close>:
  the name \<open>x\<close> is bound to an attribute whose held value is a class, and the path
  \<open>x.p\<close> is not descended into but fails with the type error naming \<open>x\<close>, because the
  walker tests the attribute's type descriptor, which for a class is the Python class
  \<open>types.Class\<close>. The sibling paths do descend: \<open>Resistor.p\<close>, through the class bound
  directly, and \<open>d.p\<close>, through the attribute made from an object.
\<close>

theorem C6_class_attribute_not_descended:
  "(case visit_stmts example_state
           [Assign_stmt (NoaName ''x'') (AName_or_attr (NoaName ''Resistor'')),
            Assign_stmt (NoaName ''d'') (ANew (NoaName ''Resistor''))] of
      Inl e \<Rightarrow> False
    | Inr st1 \<Rightarrow>
        lookup st1 (scope st1) (NStr ''x'') = Some (VAttribute TClassTag (VClass Resistor))
        \<and> visitName_or_attr st1 (NoaAttr [''x'', ''p''])
            = Inl (AtoTypeError (NotObjectOrClass (NStr ''x'')))
        \<and> lookup st1 (scope st1) (NStr ''Resistor'') = Some (VClass Resistor)
        \<and> visitName_or_attr st1 (NoaAttr [''Resistor'', ''p''])
            = Inr (Scope (VClass Resistor) None, NStr ''p'')
        \<and> lookup st1 (scope st1) (NStr ''d'') = Some (VAttribute (TClass Resistor) (VObject 2))
        \<and> visitName_or_attr st1 (NoaAttr [''d'', ''p''])
            = Inr (Scope (VObject 2) None, NStr ''p''))"
  by (simp add: n_x n_p n_d n_Resistor scope_eval walker_eval)

subsection \<open>Imports\<close>







subsection \<open>Connect statements\<close>

lemma is_subclass_of_refl: "is_subclass_of c c"
proof (cases c)
  case (Class i n s)
  then show ?thesis by (cases s) (simp_all add: is_subclass_of_def)
qed

lemma visitConnectable_Inr:
  assumes "visitConnectable st c = Inr (v, st1)"
  shows "is_InterfaceObject st1 v"
    and "\<exists>w. resolve_connectable st c = Inr (w, st1) \<and> v = unwrap_attribute w"
  using assms
  by (auto simp: visitConnectable_def Let_def split: sum.splits prod.splits if_splits)

lemma visitConnectable_resolved:
  assumes "resolve_connectable st c = Inr (v, st1)"
  shows "visitConnectable st c =
     (if is_InterfaceObject st1 (unwrap_attribute v) then Inr (unwrap_attribute v, st1)
      else Inl (AtoTypeError CannotConnect))"
  using assms by (simp add: visitConnectable_def Let_def)

lemma visitConnect_stmt_success:
  assumes a: "visitConnectable st c0 = Inr (s, st1)"
    and b: "visitConnectable st1 c1 = Inr (e, st2)"
  shows "visitConnect_stmt st c0 c1 =
     Inr (VObject (next_oid st2),
       st2\<lparr>objects := (objects st2)(next_oid st2 := \<lparr>type' = types_LINK, start = Some s, end' = Some e\<rparr>),
           next_oid := Suc (next_oid st2),
           anon := (anon st2)(scope_root (scope st2) :=
                     anon st2 (scope_root (scope st2)) @ [VObject (next_oid st2)])\<rparr>)"
  using a b
  by (simp add: visitConnect_stmt_def make_instance_def is_LinkObject_def is_subclass_of_refl
      set_link_ends_def append_anon_def Let_def)

lemma visitConnect_stmt_Inr:
  assumes "visitConnect_stmt st c0 c1 = Inr (link, st3)"
  shows "\<exists>s st1 e st2. visitConnectable st c0 = Inr (s, st1)
           \<and> visitConnectable st1 c1 = Inr (e, st2)
           \<and> is_InterfaceObject st1 s \<and> is_InterfaceObject st2 e
           \<and> link = VObject (next_oid st2)
           \<and> objects st3 (next_oid st2) = \<lparr>type' = types_LINK, start = Some s, end' = Some e\<rparr>
           \<and> anon st3 (scope_root (scope st2)) = anon st2 (scope_root (scope st2)) @ [link]
           \<and> members st3 = members st2 \<and> scope st3 = scope st2"
proof (cases "visitConnectable st c0")
  case (Inl x)
  with assms show ?thesis by (simp add: visitConnect_stmt_def)
next
  case (Inr p)
  obtain s st1 where p: "p = (s, st1)" by (cases p)
  with Inr have a: "visitConnectable st c0 = Inr (s, st1)" by simp
  show ?thesis
  proof (cases "visitConnectable st1 c1")
    case (Inl x)
    with a assms show ?thesis by (simp add: visitConnect_stmt_def)
  next
    case (Inr q)
    obtain e st2 where "q = (e, st2)" by (cases q)
    with Inr have b: "visitConnectable st1 c1 = Inr (e, st2)" by simp
    from visitConnect_stmt_success [OF a b] assms
    have l: "link = VObject (next_oid st2)"
      and s3: "st3 = st2\<lparr>objects := (objects st2)(next_oid st2 := \<lparr>type' = types_LINK, start = Some s, end' = Some e\<rparr>),
           next_oid := Suc (next_oid st2),
           anon := (anon st2)(scope_root (scope st2) :=
                     anon st2 (scope_root (scope st2)) @ [VObject (next_oid st2)])\<rparr>"
      by simp_all
    have "visitConnectable st c0 = Inr (s, st1)
           \<and> visitConnectable st1 c1 = Inr (e, st2)
           \<and> is_InterfaceObject st1 s \<and> is_InterfaceObject st2 e
           \<and> link = VObject (next_oid st2)
           \<and> objects st3 (next_oid st2) = \<lparr>type' = types_LINK, start = Some s, end' = Some e\<rparr>
           \<and> anon st3 (scope_root (scope st2)) = anon st2 (scope_root (scope st2)) @ [link]
           \<and> members st3 = members st2 \<and> scope st3 = scope st2"
      using a b visitConnectable_Inr(1) [OF a] visitConnectable_Inr(1) [OF b] l s3 by simp
    then show ?thesis by blast
  qed
qed

lemma visitConnect_stmt_type_error:
  "visitConnectable st c0 = Inl e \<Longrightarrow> visitConnect_stmt st c0 c1 = Inl e"
  "visitConnectable st c0 = Inr (s, st1) \<Longrightarrow> visitConnectable st1 c1 = Inl e
    \<Longrightarrow> visitConnect_stmt st c0 c1 = Inl e"
  by (simp_all add: visitConnect_stmt_def)

lemma numerical_pin_ref_ignores_prefix:
  "visitName_or_attr st noa = Inr x \<Longrightarrow> visitName_or_attr st noa2 = Inr y
    \<Longrightarrow> resolve_connectable st (CNumerical_pin_ref noa t)
        = resolve_connectable st (CNumerical_pin_ref noa2 t)"
  by (simp add: resolve_connectable_def)

lemma n_r_top: "visitName ''r_top'' = NStr ''r_top''"
  by (simp add: int_eval)

lemma n_r_bottom: "visitName ''r_bottom'' = NStr ''r_bottom''"
  by (simp add: int_eval)

lemma n_out: "visitName ''out'' = NStr ''out''"
  by (simp add: int_eval)

lemma n_top: "visitName ''top'' = NStr ''top''"
  by (simp add: int_eval)

lemma n_bottom: "visitName ''bottom'' = NStr ''bottom''"
  by (simp add: int_eval)

lemma i_2: "py_int ''2'' = Some 2"
  by (simp add: int_eval)

text \<open>
  Claim C5, evaluated on \<open>r_top.2 ~ out\<close>. In a block that has declared its own
  \<open>pin 2\<close>, \<open>signal out\<close> and \<open>r_top = new Resistor\<close>, the numeric pin reference
  \<open>r_top.2\<close> denotes pin 2 of the enclosing block (object 2), not anything of \<open>r_top\<close>
  (object 4), and the link that is created and appended starts at that pin. In the
  body of \<open>VDiv\<close>, where the block has no pin 2 of its own, the same statement fails
  because the integer is looked up in the current scope.
\<close>

theorem C5_numeric_pin_ref:
  "(case visit_stmts example_state
           [Pindef_stmt (PinInteger ''2''), Signaldef_stmt ''out'',
            Assign_stmt (NoaName ''r_top'') (ANew (NoaName ''Resistor''))] of
      Inl e \<Rightarrow> False
    | Inr st1 \<Rightarrow>
        lookup st1 (scope st1) (NInt 2) = Some (VObject 2)
        \<and> lookup st1 (scope st1) (NStr ''out'') = Some (VObject 3)
        \<and> lookup st1 (scope st1) (NStr ''r_top'') = Some (VAttribute (TClass Resistor) (VObject 4))
        \<and> map_sum id fst (resolve_connectable st1 (CNumerical_pin_ref (NoaName ''r_top'') ''2''))
            = Inr (VObject 2)
        \<and> (case visitConnect_stmt st1 (CNumerical_pin_ref (NoaName ''r_top'') ''2'')
                   (CName_or_attr (NoaName ''out'')) of
              Inl e \<Rightarrow> False
            | Inr (link, st2) \<Rightarrow>
                link = VObject 5
                \<and> objects st2 5 = \<lparr>type' = types_LINK, start = Some (VObject 2), end' = Some (VObject 3)\<rparr>
                \<and> anon st2 (scope_root (scope st2)) = [VObject 5]))
   \<and> visit_stmts example_state vdiv_body = Inl (NameNotFound (NInt 2))"
  by (simp add: vdiv_body_def n_r_top n_r_bottom n_out n_top n_bottom n_Resistor i_2
      visitTotally_an_integer_def class_eval scope_eval walker_eval)

subsection \<open>Retype statements and what other statements leave alone\<close>

lemma unchanged_objects_refl: "unchanged_objects st st"
  by (simp add: unchanged_objects_def)

lemma unchanged_objects_trans:
  "unchanged_objects st st1 \<Longrightarrow> unchanged_objects st1 st2 \<Longrightarrow> unchanged_objects st st2"
  by (auto simp: unchanged_objects_def)

lemma unchanged_objects_same:
  "objects st1 = objects st \<Longrightarrow> next_oid st1 = next_oid st \<Longrightarrow> unchanged_objects st st1"
  by (simp add: unchanged_objects_def)

lemma make_instance_unchanged: "unchanged_objects st (snd (make_instance st c))"
  by (simp add: unchanged_objects_def make_instance_def)

lemma scope_setitem_unchanged:
  "scope_setitem st sc n v = Inr st1 \<Longrightarrow> unchanged_objects st st1"
  by (rule unchanged_objects_same) (simp_all add: scope_setitem_Inr)

lemma pindef_unchanged:
  assumes "visitPindef_stmt st pd = Inr (v, st1)"
  shows "unchanged_objects st st1"
proof -
  obtain n where si: "scope_setitem (snd (make_instance st types_PIN))
      (scope (snd (make_instance st types_PIN))) n v = Inr st1"
    using assms
    by (cases pd)
      (auto simp: visitPindef_stmt_def make_instance_def Let_def
        split: if_splits sum.splits)
  from make_instance_unchanged scope_setitem_unchanged [OF si] show ?thesis
    by (rule unchanged_objects_trans)
qed

lemma signaldef_unchanged:
  assumes "visitSignaldef_stmt st t = Inr (v, st1)"
  shows "unchanged_objects st st1"
proof -
  have si: "scope_setitem (snd (make_instance st types_INTERFACE))
      (scope (snd (make_instance st types_INTERFACE))) (visitName t) v = Inr st1"
    using assms
    by (simp add: visitSignaldef_stmt_def make_instance_def Let_def split: if_splits sum.splits)
  from make_instance_unchanged scope_setitem_unchanged [OF si] show ?thesis
    by (rule unchanged_objects_trans)
qed

lemma resolve_connectable_unchanged:
  assumes "resolve_connectable st c = Inr (v, st1)"
  shows "unchanged_objects st st1"
proof (cases c)
  case (CName_or_attr noa)
  with assms have "st1 = st"
    by (auto simp: resolve_connectable_def split: sum.splits prod.splits)
  then show ?thesis by (simp add: unchanged_objects_refl)
next
  case (CNumerical_pin_ref noa t)
  with assms have "st1 = st"
    by (auto simp: resolve_connectable_def split: sum.splits prod.splits)
  then show ?thesis by (simp add: unchanged_objects_refl)
next
  case (CPindef pd)
  with assms show ?thesis by (simp add: resolve_connectable_def pindef_unchanged)
next
  case (CSignaldef t)
  with assms show ?thesis by (simp add: resolve_connectable_def signaldef_unchanged)
qed

lemma visitConnectable_unchanged:
  assumes "visitConnectable st c = Inr (v, st1)"
  shows "unchanged_objects st st1"
  using visitConnectable_Inr(2) [OF assms] resolve_connectable_unchanged by blast

lemma connect_unchanged:
  assumes "visitConnect_stmt st c0 c1 = Inr (link, st3)"
  shows "unchanged_objects st st3"
proof -
  from visitConnect_stmt_Inr [OF assms] obtain s st1 e st2 where
    a: "visitConnectable st c0 = Inr (s, st1)" and b: "visitConnectable st1 c1 = Inr (e, st2)"
    by blast
  from visitConnect_stmt_success [OF a b] assms
  have "unchanged_objects st2 st3" by (auto simp: unchanged_objects_def)
  with visitConnectable_unchanged [OF a] visitConnectable_unchanged [OF b]
  show ?thesis by (blast intro: unchanged_objects_trans)
qed

lemma visitAssignable_unchanged:
  assumes "visitAssignable st a = Inr (v, st1)"
  shows "unchanged_objects st st1"
proof (cases a)
  case (ANew noa)
  with assms have "visitNew_stmt st noa = Inr (v, st1)" by (simp add: visitAssignable_def)
  then obtain c where "make_instance st c = (v, st1)"
    by (auto simp: visitNew_stmt_def split: sum.splits prod.splits val.splits)
  then have "st1 = snd (make_instance st c)" by simp
  then show ?thesis by (simp add: make_instance_unchanged)
next
  case (AName_or_attr noa)
  with assms have "st1 = st"
    by (auto simp: visitAssignable_def split: sum.splits prod.splits)
  then show ?thesis by (simp add: unchanged_objects_refl)
next
  case (ANumber f)
  with assms have "st1 = st" by (cases f) (auto simp: visitAssignable_def)
  then show ?thesis by (simp add: unchanged_objects_refl)
next
  case (AString x)
  with assms have "st1 = st" by (auto simp: visitAssignable_def)
  then show ?thesis by (simp add: unchanged_objects_refl)
next
  case (ABoolean x)
  with assms have "st1 = st" by (auto simp: visitAssignable_def)
  then show ?thesis by (simp add: unchanged_objects_refl)
next
  case ANothing
  with assms have "st1 = st" by (auto simp: visitAssignable_def)
  then show ?thesis by (simp add: unchanged_objects_refl)
qed

lemma assign_unchanged:
  assumes "visitAssign_stmt st noa a = Inr st1"
  shows "unchanged_objects st st1"
proof -
  obtain sc n v st0 attr where va: "visitAssignable st a = Inr (v, st0)"
    and si: "scope_setitem st0 sc n attr = Inr st1"
    using assms
    by (auto simp: visitAssign_stmt_def split: sum.splits prod.splits)
  from visitAssignable_unchanged [OF va] scope_setitem_unchanged [OF si] show ?thesis
    by (rule unchanged_objects_trans)
qed

lemma import_unchanged:
  assumes "visitImport_stmt st f noa = Inr st1"
  shows "unchanged_objects st st1"
proof -
  obtain n v where "scope_setitem st (scope st) n v = Inr st1"
    using assms
    by (auto simp: visitImport_stmt_def Let_def split: sum.splits prod.splits if_splits)
  then show ?thesis by (rule scope_setitem_unchanged)
qed

lemma other_statements_unchanged:
  assumes "\<forall>x y. s \<noteq> Retype_stmt x y" and "visit_stmt st s = Inr st1"
  shows "unchanged_objects st st1"
proof (cases s)
  case (Blockdef nm bt fr body)
  with assms(2) show ?thesis by (simp add: blockdef_class_fails split: if_splits)
next
  case (Pindef_stmt pd)
  with assms(2) obtain v where "visitPindef_stmt st pd = Inr (v, st1)"
    by (cases "visitPindef_stmt st pd") auto
  then show ?thesis by (rule pindef_unchanged)
next
  case (Signaldef_stmt t)
  with assms(2) obtain v where "visitSignaldef_stmt st t = Inr (v, st1)"
    by (cases "visitSignaldef_stmt st t") auto
  then show ?thesis by (rule signaldef_unchanged)
next
  case (Import_stmt f noa)
  with assms(2) show ?thesis by (simp add: import_unchanged)
next
  case (Connect_stmt c0 c1)
  with assms(2) obtain v where "visitConnect_stmt st c0 c1 = Inr (v, st1)"
    by (cases "visitConnect_stmt st c0 c1") auto
  then show ?thesis by (rule connect_unchanged)
next
  case With_stmt
  with assms(2) show ?thesis by simp
next
  case (Assign_stmt noa a)
  with assms(2) show ?thesis by (simp add: assign_unchanged)
next
  case (Retype_stmt x y)
  with assms(1) show ?thesis by simp
qed

lemma retype_result:
  assumes "visitName_or_attr st ctx0 = Inr (obj_scope, obj_name)"
    and "visitName_or_attr st ctx1 = Inr (target_scope, target_name)"
    and "lookup st obj_scope obj_name = Some ob"
  shows "visitRetype_stmt st ctx0 ctx1 =
     (case ob of
        VObject a \<Rightarrow>
          (case lookup st target_scope target_name of
             None \<Rightarrow> Inl (NameNotFound target_name)
           | Some (VClass c) \<Rightarrow>
               if is_subclass_of c (type' (objects st a)) then Inr (set_type st a c)
               else Inl (AtoTypeError
                     (NotASubclass obj_name target_name (cname (type' (objects st a)))))
           | Some _ \<Rightarrow> Inl (AtoTypeError (CanOnlyRetypeToClasses target_name)))
      | _ \<Rightarrow> Inl (AtoTypeError (CanOnlyRetypeObjects obj_name)))"
  using assms
  by (simp add: visitRetype_stmt_def scope_getitem_def split: val.splits option.splits)

lemma only_added_refl: "only_added st st"
  by (simp add: only_added_def)

lemma only_added_same:
  "members st1 = members st \<Longrightarrow> anon st1 = anon st \<Longrightarrow> only_added st st1"
  by (simp add: only_added_def)

lemma only_added_trans:
  assumes "only_added st st1" and "only_added st1 st2"
  shows "only_added st st2"
proof -
  have m: "\<exists>ys. members st2 r = members st r @ ys" for r
  proof -
    from assms(1) obtain xs where "members st1 r = members st r @ xs"
      by (auto simp: only_added_def)
    moreover from assms(2) obtain zs where "members st2 r = members st1 r @ zs"
      by (auto simp: only_added_def)
    ultimately have "members st2 r = members st r @ (xs @ zs)" by simp
    then show ?thesis by blast
  qed
  have a: "\<exists>ys. anon st2 r = anon st r @ ys" for r
  proof -
    from assms(1) obtain xs where "anon st1 r = anon st r @ xs"
      by (auto simp: only_added_def)
    moreover from assms(2) obtain zs where "anon st2 r = anon st1 r @ zs"
      by (auto simp: only_added_def)
    ultimately have "anon st2 r = anon st r @ (xs @ zs)" by simp
    then show ?thesis by blast
  qed
  from m a show ?thesis by (simp add: only_added_def)
qed

lemma make_instance_only_added: "only_added st (snd (make_instance st c))"
  by (simp add: only_added_def make_instance_def)

lemma scope_setitem_only_added:
  assumes "scope_setitem st sc n v = Inr st1"
  shows "only_added st st1"
proof -
  from assms have st1: "st1 = st\<lparr>members := (members st)(scope_root sc :=
      members st (scope_root sc) @ [(n, v)])\<rparr>"
    by (simp add: scope_setitem_def split: if_splits)
  have "\<exists>ys. members st1 r = members st r @ ys" for r
    by (cases "r = scope_root sc") (simp_all add: st1)
  moreover have "anon st1 = anon st" by (simp add: st1)
  ultimately show ?thesis by (simp add: only_added_def)
qed

lemma pindef_only_added:
  assumes "visitPindef_stmt st pd = Inr (v, st1)"
  shows "only_added st st1"
proof -
  obtain n where si: "scope_setitem (snd (make_instance st types_PIN))
      (scope (snd (make_instance st types_PIN))) n v = Inr st1"
    using assms
    by (cases pd)
      (auto simp: visitPindef_stmt_def make_instance_def Let_def
        split: if_splits sum.splits)
  from make_instance_only_added scope_setitem_only_added [OF si] show ?thesis
    by (rule only_added_trans)
qed

lemma signaldef_only_added:
  assumes "visitSignaldef_stmt st t = Inr (v, st1)"
  shows "only_added st st1"
proof -
  have si: "scope_setitem (snd (make_instance st types_INTERFACE))
      (scope (snd (make_instance st types_INTERFACE))) (visitName t) v = Inr st1"
    using assms
    by (simp add: visitSignaldef_stmt_def make_instance_def Let_def split: if_splits sum.splits)
  from make_instance_only_added scope_setitem_only_added [OF si] show ?thesis
    by (rule only_added_trans)
qed

lemma resolve_connectable_only_added:
  assumes "resolve_connectable st c = Inr (v, st1)"
  shows "only_added st st1"
proof (cases c)
  case (CName_or_attr noa)
  with assms have "st1 = st"
    by (auto simp: resolve_connectable_def split: sum.splits prod.splits)
  then show ?thesis by (simp add: only_added_refl)
next
  case (CNumerical_pin_ref noa t)
  with assms have "st1 = st"
    by (auto simp: resolve_connectable_def split: sum.splits prod.splits)
  then show ?thesis by (simp add: only_added_refl)
next
  case (CPindef pd)
  with assms show ?thesis by (simp add: resolve_connectable_def pindef_only_added)
next
  case (CSignaldef t)
  with assms show ?thesis by (simp add: resolve_connectable_def signaldef_only_added)
qed

lemma visitConnectable_only_added:
  assumes "visitConnectable st c = Inr (v, st1)"
  shows "only_added st st1"
  using visitConnectable_Inr(2) [OF assms] resolve_connectable_only_added by blast

lemma connect_only_added:
  assumes "visitConnect_stmt st c0 c1 = Inr (link, st3)"
  shows "only_added st st3"
proof -
  from visitConnect_stmt_Inr [OF assms] obtain s st1 e st2 where
    a: "visitConnectable st c0 = Inr (s, st1)" and b: "visitConnectable st1 c1 = Inr (e, st2)"
    and l: "link = VObject (next_oid st2)"
    and an: "anon st3 (scope_root (scope st2)) = anon st2 (scope_root (scope st2)) @ [link]"
    and m: "members st3 = members st2"
    by blast
  from visitConnect_stmt_success [OF a b] assms
  have other: "r \<noteq> scope_root (scope st2) \<Longrightarrow> anon st3 r = anon st2 r" for r
    by auto
  have "\<exists>ys. anon st3 r = anon st2 r @ ys" for r
    by (cases "r = scope_root (scope st2)") (simp_all add: an other)
  with m have "only_added st2 st3" by (simp add: only_added_def)
  with visitConnectable_only_added [OF a] visitConnectable_only_added [OF b]
  show ?thesis by (blast intro: only_added_trans)
qed

lemma visitAssignable_only_added:
  assumes "visitAssignable st a = Inr (v, st1)"
  shows "only_added st st1"
  using visitAssignable_frame [OF assms] by (simp add: only_added_same)

lemma assign_only_added:
  assumes "visitAssign_stmt st noa a = Inr st1"
  shows "only_added st st1"
proof -
  obtain sc n v st0 attr where va: "visitAssignable st a = Inr (v, st0)"
    and si: "scope_setitem st0 sc n attr = Inr st1"
    using assms
    by (auto simp: visitAssign_stmt_def split: sum.splits prod.splits)
  from visitAssignable_only_added [OF va] scope_setitem_only_added [OF si] show ?thesis
    by (rule only_added_trans)
qed

lemma import_only_added:
  assumes "visitImport_stmt st f noa = Inr st1"
  shows "only_added st st1"
proof -
  obtain n v where "scope_setitem st (scope st) n v = Inr st1"
    using assms
    by (auto simp: visitImport_stmt_def Let_def split: sum.splits prod.splits if_splits)
  then show ?thesis by (rule scope_setitem_only_added)
qed

lemma retype_only_added:
  assumes "visitRetype_stmt st ctx0 ctx1 = Inr st1"
  shows "only_added st st1"
proof -
  from assms obtain a c where "st1 = set_type st a c"
    by (auto simp: visitRetype_stmt_def split: sum.splits prod.splits val.splits if_splits)
  then show ?thesis by (simp add: only_added_def set_type_def)
qed

lemma statements_only_add:
  assumes "visit_stmt st s = Inr st1"
  shows "only_added st st1"
proof (cases s)
  case (Blockdef nm bt fr body)
  with assms show ?thesis by (simp add: blockdef_class_fails split: if_splits)
next
  case (Pindef_stmt pd)
  with assms obtain v where "visitPindef_stmt st pd = Inr (v, st1)"
    by (cases "visitPindef_stmt st pd") auto
  then show ?thesis by (rule pindef_only_added)
next
  case (Signaldef_stmt t)
  with assms obtain v where "visitSignaldef_stmt st t = Inr (v, st1)"
    by (cases "visitSignaldef_stmt st t") auto
  then show ?thesis by (rule signaldef_only_added)
next
  case (Import_stmt f noa)
  with assms show ?thesis by (simp add: import_only_added)
next
  case (Connect_stmt c0 c1)
  with assms obtain v where "visitConnect_stmt st c0 c1 = Inr (v, st1)"
    by (cases "visitConnect_stmt st c0 c1") auto
  then show ?thesis by (rule connect_only_added)
next
  case With_stmt
  with assms show ?thesis by simp
next
  case (Assign_stmt noa a)
  with assms show ?thesis by (simp add: assign_only_added)
next
  case (Retype_stmt x y)
  with assms show ?thesis by (simp add: retype_only_added)
qed

lemma retype_path_fails:
  "visitName_or_attr st ctx0 = Inl e \<Longrightarrow> visitRetype_stmt st ctx0 ctx1 = Inl e"
  "visitName_or_attr st ctx0 = Inr x \<Longrightarrow> visitName_or_attr st ctx1 = Inl e
    \<Longrightarrow> visitRetype_stmt st ctx0 ctx1 = Inl e"
  by (cases x; simp add: visitRetype_stmt_def)+

lemma retype_unbound:
  assumes "visitName_or_attr st ctx0 = Inr (obj_scope, obj_name)"
    and "visitName_or_attr st ctx1 = Inr (target_scope, target_name)"
    and "lookup st obj_scope obj_name = None"
  shows "visitRetype_stmt st ctx0 ctx1 = Inl (NameNotFound obj_name)"
  using assms by (simp add: visitRetype_stmt_def scope_getitem_def)


lemma n_a: "visitName ''a'' = NStr ''a''"
  by (simp add: int_eval)

lemma n_s1: "visitName ''s1'' = NStr ''s1''"
  by (simp add: int_eval)

lemma n_Probe: "visitName ''Probe'' = NStr ''Probe''"
  by (simp add: int_eval)

lemma n_Capacitor: "visitName ''Capacitor'' = NStr ''Capacitor''"
  by (simp add: int_eval)

lemmas retype_eval =
  retype_state_def retype_members_def Probe_def scope_getitem_def scope_contains_def

text \<open>
  Claim C3, as stated, fails in two ways. At \<open>nope -> Probe\<close> and at \<open>s1 -> nope\<close>,
  where an operand names nothing, the statement fails with the lookup's NameNotFound,
  which is not the type error. And retyping is not the only statement that changes an
  existing entity in place: the assignment \<open>lib.x = 5\<close> adds the name \<open>x\<close> to the
  members of the existing object \<open>lib\<close>.
\<close>

theorem C3_counterexample:
  "visitRetype_stmt retype_state (NoaName ''nope'') (NoaName ''Probe'')
     = Inl (NameNotFound (NStr ''nope''))
   \<and> visitRetype_stmt retype_state (NoaName ''s1'') (NoaName ''nope'')
       = Inl (NameNotFound (NStr ''nope''))
   \<and> \<not> is_TypeMismatch (NameNotFound (NStr ''nope''))
   \<and> (case visit_stmt example_state (Assign_stmt (NoaAttr [''lib'', ''x'']) (ANumber (Integral 5))) of
         Inl e \<Rightarrow> False
       | Inr st1 \<Rightarrow>
           members example_state (VObject 1) = [(NStr ''R'', VClass Resistor)]
           \<and> members st1 (VObject 1)
               = [(NStr ''R'', VClass Resistor), (NStr ''x'', VAttribute (TPrim PInt) (VInt 5))])"
  by (simp add: n_nope n_s1 n_Probe n_lib n_x retype_eval scope_eval walker_eval
      is_TypeMismatch_def)

text \<open>
  Claim C3, amended. For every retype statement: if the path of either operand does
  not resolve, the statement fails with that resolution's error, and if a final name
  is not bound it fails with NameNotFound; if the object operand is bound to a value
  that is not an object, also after unwrapping an attribute, it fails with the type
  error; if the object operand is bound to an object and the target operand to a value
  that is not a class, it fails with the type error; if the target class is not a
  subclass of the object's current type, it fails with the type error; otherwise it
  succeeds and assigns the target class to the \<open>type_\<close> field of the object in the
  store, leaving the object's other fields, every other object, the names and the
  current scope as they are. Retyping is the only statement that changes a field of an
  existing object: a statement of any other kind leaves every existing object's
  fields unchanged; and every statement keeps the names and anonymous items that
  entities already have, adding new ones at most.
\<close>

theorem C3_retype:
  "(\<forall>e. visitName_or_attr st ctx0 = Inl e \<longrightarrow> visitRetype_stmt st ctx0 ctx1 = Inl e)
   \<and> (\<forall>x e. visitName_or_attr st ctx0 = Inr x \<and> visitName_or_attr st ctx1 = Inl e \<longrightarrow>
         visitRetype_stmt st ctx0 ctx1 = Inl e)
   \<and> (\<forall>obj_scope obj_name target_scope target_name.
         visitName_or_attr st ctx0 = Inr (obj_scope, obj_name)
         \<and> visitName_or_attr st ctx1 = Inr (target_scope, target_name) \<longrightarrow>
           (lookup st obj_scope obj_name = None \<longrightarrow>
              visitRetype_stmt st ctx0 ctx1 = Inl (NameNotFound obj_name))
         \<and> (\<forall>ob. lookup st obj_scope obj_name = Some ob \<and> \<not> is_Object (unwrap_attribute ob) \<longrightarrow>
              visitRetype_stmt st ctx0 ctx1 = Inl (AtoTypeError (CanOnlyRetypeObjects obj_name)))
         \<and> (\<forall>a. lookup st obj_scope obj_name = Some (VObject a) \<longrightarrow>
               (lookup st target_scope target_name = None \<longrightarrow>
                  visitRetype_stmt st ctx0 ctx1 = Inl (NameNotFound target_name))
             \<and> (\<forall>tv. lookup st target_scope target_name = Some tv \<and> \<not> is_Class tv \<longrightarrow>
                  visitRetype_stmt st ctx0 ctx1
                    = Inl (AtoTypeError (CanOnlyRetypeToClasses target_name)))
             \<and> (\<forall>c. lookup st target_scope target_name = Some (VClass c)
                   \<and> \<not> is_subclass_of c (type' (objects st a)) \<longrightarrow>
                  visitRetype_stmt st ctx0 ctx1 =
                    Inl (AtoTypeError
                      (NotASubclass obj_name target_name (cname (type' (objects st a))))))
             \<and> (\<forall>c. lookup st target_scope target_name = Some (VClass c)
                   \<and> is_subclass_of c (type' (objects st a)) \<longrightarrow>
                  (\<exists>st1. visitRetype_stmt st ctx0 ctx1 = Inr st1
                     \<and> type' (objects st1 a) = c
                     \<and> start (objects st1 a) = start (objects st a)
                     \<and> end' (objects st1 a) = end' (objects st a)
                     \<and> (\<forall>b. b \<noteq> a \<longrightarrow> objects st1 b = objects st b)
                     \<and> members st1 = members st \<and> anon st1 = anon st
                     \<and> scope st1 = scope st \<and> next_oid st1 = next_oid st))))
   \<and> (\<forall>s st0 st1. (\<forall>x y. s \<noteq> Retype_stmt x y) \<and> visit_stmt st0 s = Inr st1 \<longrightarrow>
         unchanged_objects st0 st1)
   \<and> (\<forall>s st0 st1. visit_stmt st0 s = Inr st1 \<longrightarrow> only_added st0 st1)"
proof (intro conjI allI impI)
  fix e
  assume "visitName_or_attr st ctx0 = Inl e"
  then show "visitRetype_stmt st ctx0 ctx1 = Inl e" by (rule retype_path_fails(1))
next
  fix x e
  assume "visitName_or_attr st ctx0 = Inr x \<and> visitName_or_attr st ctx1 = Inl e"
  then show "visitRetype_stmt st ctx0 ctx1 = Inl e" using retype_path_fails(2) by blast
next
  fix obj_scope obj_name target_scope target_name
  assume p: "visitName_or_attr st ctx0 = Inr (obj_scope, obj_name)
         \<and> visitName_or_attr st ctx1 = Inr (target_scope, target_name)"
  assume "lookup st obj_scope obj_name = None"
  with p show "visitRetype_stmt st ctx0 ctx1 = Inl (NameNotFound obj_name)"
    using retype_unbound by blast
next
  fix obj_scope obj_name target_scope target_name ob
  assume p: "visitName_or_attr st ctx0 = Inr (obj_scope, obj_name)
         \<and> visitName_or_attr st ctx1 = Inr (target_scope, target_name)"
  assume q: "lookup st obj_scope obj_name = Some ob \<and> \<not> is_Object (unwrap_attribute ob)"
  from p q have r: "visitRetype_stmt st ctx0 ctx1 =
     (case ob of
        VObject a \<Rightarrow>
          (case lookup st target_scope target_name of
             None \<Rightarrow> Inl (NameNotFound target_name)
           | Some (VClass c) \<Rightarrow>
               if is_subclass_of c (type' (objects st a)) then Inr (set_type st a c)
               else Inl (AtoTypeError
                     (NotASubclass obj_name target_name (cname (type' (objects st a)))))
           | Some _ \<Rightarrow> Inl (AtoTypeError (CanOnlyRetypeToClasses target_name)))
      | _ \<Rightarrow> Inl (AtoTypeError (CanOnlyRetypeObjects obj_name)))"
    using retype_result by blast
  from q show "visitRetype_stmt st ctx0 ctx1 = Inl (AtoTypeError (CanOnlyRetypeObjects obj_name))"
    by (cases ob) (simp_all add: r is_Object_def unwrap_attribute_def)
next
  fix obj_scope obj_name target_scope target_name a
  assume p: "visitName_or_attr st ctx0 = Inr (obj_scope, obj_name)
         \<and> visitName_or_attr st ctx1 = Inr (target_scope, target_name)"
  assume q: "lookup st obj_scope obj_name = Some (VObject a)"
  assume "lookup st target_scope target_name = None"
  with retype_result [of st ctx0 obj_scope obj_name ctx1 target_scope target_name "VObject a"] p q
  show "visitRetype_stmt st ctx0 ctx1 = Inl (NameNotFound target_name)" by simp
next
  fix obj_scope obj_name target_scope target_name a tv
  assume p: "visitName_or_attr st ctx0 = Inr (obj_scope, obj_name)
         \<and> visitName_or_attr st ctx1 = Inr (target_scope, target_name)"
  assume q: "lookup st obj_scope obj_name = Some (VObject a)"
  assume t: "lookup st target_scope target_name = Some tv \<and> \<not> is_Class tv"
  from retype_result [of st ctx0 obj_scope obj_name ctx1 target_scope target_name "VObject a"] p q t
  show "visitRetype_stmt st ctx0 ctx1 = Inl (AtoTypeError (CanOnlyRetypeToClasses target_name))"
    by (cases tv) (simp_all add: is_Class_def)
next
  fix obj_scope obj_name target_scope target_name a c
  assume p: "visitName_or_attr st ctx0 = Inr (obj_scope, obj_name)
         \<and> visitName_or_attr st ctx1 = Inr (target_scope, target_name)"
  assume q: "lookup st obj_scope obj_name = Some (VObject a)"
  assume t: "lookup st target_scope target_name = Some (VClass c)
                   \<and> \<not> is_subclass_of c (type' (objects st a))"
  from retype_result [of st ctx0 obj_scope obj_name ctx1 target_scope target_name "VObject a"] p q t
  show "visitRetype_stmt st ctx0 ctx1 =
     Inl (AtoTypeError (NotASubclass obj_name target_name (cname (type' (objects st a)))))"
    by simp
next
  fix obj_scope obj_name target_scope target_name a c
  assume p: "visitName_or_attr st ctx0 = Inr (obj_scope, obj_name)
         \<and> visitName_or_attr st ctx1 = Inr (target_scope, target_name)"
  assume q: "lookup st obj_scope obj_name = Some (VObject a)"
  assume t: "lookup st target_scope target_name = Some (VClass c)
                   \<and> is_subclass_of c (type' (objects st a))"
  from retype_result [of st ctx0 obj_scope obj_name ctx1 target_scope target_name "VObject a"] p q t
  have "visitRetype_stmt st ctx0 ctx1 = Inr (set_type st a c)" by simp
  then have "visitRetype_stmt st ctx0 ctx1 = Inr (set_type st a c)
            \<and> type' (objects (set_type st a c) a) = c
            \<and> start (objects (set_type st a c) a) = start (objects st a)
            \<and> end' (objects (set_type st a c) a) = end' (objects st a)
            \<and> (\<forall>b. b \<noteq> a \<longrightarrow> objects (set_type st a c) b = objects st b)
            \<and> members (set_type st a c) = members st \<and> anon (set_type st a c) = anon st
            \<and> scope (set_type st a c) = scope st \<and> next_oid (set_type st a c) = next_oid st"
    by (simp add: set_type_def)
  then show "\<exists>st1. visitRetype_stmt st ctx0 ctx1 = Inr st1
            \<and> type' (objects st1 a) = c
            \<and> start (objects st1 a) = start (objects st a)
            \<and> end' (objects st1 a) = end' (objects st a)
            \<and> (\<forall>b. b \<noteq> a \<longrightarrow> objects st1 b = objects st b)
            \<and> members st1 = members st \<and> anon st1 = anon st
            \<and> scope st1 = scope st \<and> next_oid st1 = next_oid st"
    by (rule exI)
next
  fix s st0 st1
  assume "(\<forall>x y. s \<noteq> Retype_stmt x y) \<and> visit_stmt st0 s = Inr st1"
  then show "unchanged_objects st0 st1"
    using other_statements_unchanged by blast
next
  fix s st0 st1
  assume "visit_stmt st0 s = Inr st1"
  then show "only_added st0 st1" by (rule statements_only_add)
qed

theorem C3_retype_witness:
  "(\<exists>st1. visitRetype_stmt retype_state (NoaName ''s1'') (NoaName ''Probe'') = Inr st1
        \<and> type' (objects retype_state 2) = types_INTERFACE
        \<and> type' (objects st1 2) = Probe)
   \<and> visitRetype_stmt retype_state (NoaName ''s1'') (NoaName ''Capacitor'')
       = Inl (AtoTypeError (NotASubclass (NStr ''s1'') (NStr ''Capacitor'') (NStr ''Interface'')))
   \<and> visitRetype_stmt retype_state (NoaName ''s1'') (NoaName ''s1'')
       = Inl (AtoTypeError (CanOnlyRetypeToClasses (NStr ''s1'')))
   \<and> visitRetype_stmt retype_state (NoaName ''Probe'') (NoaName ''Probe'')
       = Inl (AtoTypeError (CanOnlyRetypeObjects (NStr ''Probe'')))
   \<and> visitRetype_stmt retype_state (NoaName ''nope'') (NoaName ''Probe'')
       = Inl (NameNotFound (NStr ''nope''))
   \<and> visitRetype_stmt retype_state (NoaName ''s1'') (NoaName ''nope'')
       = Inl (NameNotFound (NStr ''nope''))
   \<and> visitRetype_stmt retype_state NoaNeither (NoaName ''Probe'')
       = Inl (AtoCompileError ExpectedNameOrAttr)
   \<and> (\<exists>st1. visit_stmt retype_state (Signaldef_stmt ''a'') = Inr st1
         \<and> unchanged_objects retype_state st1 \<and> only_added retype_state st1)"
proof -
  have s1: "visitName_or_attr retype_state (NoaName ''s1'') = Inr (scope retype_state, NStr ''s1'')"
    and pr: "visitName_or_attr retype_state (NoaName ''Probe'') = Inr (scope retype_state, NStr ''Probe'')"
    and ca: "visitName_or_attr retype_state (NoaName ''Capacitor'')
        = Inr (scope retype_state, NStr ''Capacitor'')"
    and no: "visitName_or_attr retype_state (NoaName ''nope'') = Inr (scope retype_state, NStr ''nope'')"
    and ne: "visitName_or_attr retype_state NoaNeither = Inl (AtoCompileError ExpectedNameOrAttr)"
    by (simp_all add: visitName_or_attr_def n_s1 n_Probe n_Capacitor n_nope)
  have l1: "lookup retype_state (scope retype_state) (NStr ''s1'') = Some (VObject 2)"
    and l2: "lookup retype_state (scope retype_state) (NStr ''Probe'') = Some (VClass Probe)"
    and l3: "lookup retype_state (scope retype_state) (NStr ''Capacitor'') = Some (VClass Capacitor)"
    and l4: "lookup retype_state (scope retype_state) (NStr ''nope'') = None"
    by (simp_all add: retype_eval)
  have t: "type' (objects retype_state 2) = types_INTERFACE" by (simp add: retype_state_def)
  have sub: "is_subclass_of Probe (type' (objects retype_state 2))"
    by (simp add: t class_eval Probe_def)
  have nsub: "\<not> is_subclass_of Capacitor (type' (objects retype_state 2))"
    by (simp add: t class_eval)
  have a: "\<exists>st1. visitRetype_stmt retype_state (NoaName ''s1'') (NoaName ''Probe'') = Inr st1
        \<and> type' (objects st1 2) = Probe"
    using C3_retype [of retype_state "NoaName ''s1''" "NoaName ''Probe''"] s1 pr l1 l2 sub
    by blast
  have "visitRetype_stmt retype_state (NoaName ''s1'') (NoaName ''Capacitor'')
       = Inl (AtoTypeError (NotASubclass (NStr ''s1'') (NStr ''Capacitor'')
            (cname (type' (objects retype_state 2)))))"
    using C3_retype [of retype_state "NoaName ''s1''" "NoaName ''Capacitor''"] s1 ca l1 l3 nsub
    by blast
  then have b: "visitRetype_stmt retype_state (NoaName ''s1'') (NoaName ''Capacitor'')
       = Inl (AtoTypeError (NotASubclass (NStr ''s1'') (NStr ''Capacitor'') (NStr ''Interface'')))"
    by (simp add: t types_INTERFACE_def)
  have nc: "\<not> is_Class (VObject 2)" by (simp add: is_Class_def)
  have c: "visitRetype_stmt retype_state (NoaName ''s1'') (NoaName ''s1'')
       = Inl (AtoTypeError (CanOnlyRetypeToClasses (NStr ''s1'')))"
    using C3_retype [of retype_state "NoaName ''s1''" "NoaName ''s1''"] s1 l1 nc by blast
  have nob: "\<not> is_Object (unwrap_attribute (VClass Probe))"
    by (simp add: is_Object_def unwrap_attribute_def)
  have d: "visitRetype_stmt retype_state (NoaName ''Probe'') (NoaName ''Probe'')
       = Inl (AtoTypeError (CanOnlyRetypeObjects (NStr ''Probe'')))"
    using C3_retype [of retype_state "NoaName ''Probe''" "NoaName ''Probe''"] pr l2 nob by blast
  have e1: "visitRetype_stmt retype_state (NoaName ''nope'') (NoaName ''Probe'')
       = Inl (NameNotFound (NStr ''nope''))"
    using C3_retype [of retype_state "NoaName ''nope''" "NoaName ''Probe''"] no pr l4 by blast
  have e2: "visitRetype_stmt retype_state (NoaName ''s1'') (NoaName ''nope'')
       = Inl (NameNotFound (NStr ''nope''))"
    using C3_retype [of retype_state "NoaName ''s1''" "NoaName ''nope''"] s1 no l1 l4 by blast
  have e3: "visitRetype_stmt retype_state NoaNeither (NoaName ''Probe'')
       = Inl (AtoCompileError ExpectedNameOrAttr)"
    using C3_retype [of retype_state NoaNeither "NoaName ''Probe''"] ne by blast
  have "\<exists>st1. visit_stmt retype_state (Signaldef_stmt ''a'') = Inr st1"
    by (simp add: visitSignaldef_stmt_def n_a retype_eval make_instance_def falsy_def
        scope_setitem_def)
  then obtain st1 where g: "visit_stmt retype_state (Signaldef_stmt ''a'') = Inr st1" by blast
  have ns: "\<forall>x y. Signaldef_stmt ''a'' \<noteq> Retype_stmt x y" by simp
  from C3_retype [of retype_state "NoaName ''s1''" "NoaName ''Probe''"] ns g
  have f: "unchanged_objects retype_state st1 \<and> only_added retype_state st1" by blast
  from a t b c d e1 e2 e3 g f show ?thesis by blast
qed

end
